theory Spec2Isabelle
  imports Complex_Main "HOL-Library.List_Lexorder" "HOL-Library.Char_ord"
    "HOL-Library.Product_Lexorder"
begin

section \<open>Habitat suitability grid builder (CMEMS/CMEMS_Maxent.py)\<close>

text \<open>
  Floating-point numbers are modelled as reals. A missing CSV value (pandas \<open>NaN\<close>) is
  \<open>None\<close>. A dictionary is a map, and \<open>len\<close> of it the cardinality of its domain. A 2-D
  numpy array is a list of rows.
\<close>

datatype error = ValueError | IndexError

type_synonym grid = "real list list"

record raw_observation =
  raw_LAT :: "real option"
  raw_LONG :: "real option"
  raw_Species :: "string option"
  raw_Counts :: "real option"
  raw_covariate :: "string \<Rightarrow> real option"

record observation =
  LAT :: real
  LONG :: real
  Species :: string
  Counts :: "real option"
  covariate :: "string \<Rightarrow> real option"

record env_stat =
  stat_mean :: real
  stat_std :: real
  stat_min :: real
  stat_max :: real
  stat_q25 :: real
  stat_q75 :: real

record species_info =
  info_data :: "observation list"
  info_count :: nat
  info_env_stats :: "string \<rightharpoonup> env_stat"
  info_lat_range :: "real \<times> real"
  info_lon_range :: "real \<times> real"

text \<open>\<open>data.dropna(subset=['LAT', 'LONG', 'Species'])\<close> in \<open>load_and_analyze_data\<close>.\<close>

definition dropna_subset :: "raw_observation list \<Rightarrow> observation list" where
  "dropna_subset data =
     List.map_filter
       (\<lambda>r. case (raw_LAT r, raw_LONG r, raw_Species r) of
               (Some la, Some lo, Some s) \<Rightarrow>
                 Some \<lparr>LAT = la, LONG = lo, Species = s, Counts = raw_Counts r,
                       covariate = raw_covariate r\<rparr>
             | _ \<Rightarrow> None)
       data"

text \<open>The pandas reductions of a column without missing values.\<close>

definition dropna :: "'a option list \<Rightarrow> 'a list" where
  "dropna vs = List.map_filter (\<lambda>v. v) vs"

definition series_mean :: "real list \<Rightarrow> real" where
  "series_mean xs = sum_list xs / real (length xs)"

definition series_std :: "real list \<Rightarrow> real" where
  "series_std xs =
     sqrt (sum_list (map (\<lambda>x. (x - series_mean xs)\<^sup>2) xs) / real (length xs - 1))"

definition series_quantile :: "real list \<Rightarrow> real \<Rightarrow> real" where
  "series_quantile xs q =
     (let s = sort xs;
          h = real (length s - 1) * q;
          lo = nat \<lfloor>h\<rfloor>;
          hi = min (lo + 1) (length s - 1)
      in s ! lo + (h - real lo) * (s ! hi - s ! lo))"

definition env_vars :: "string list" where
  "env_vars = [''TempW'', ''Salinity'', ''Detph'', ''pH'', ''CHL'', ''O2Con'']"

definition summarize :: "real list \<Rightarrow> env_stat" where
  "summarize vs =
     \<lparr>stat_mean = series_mean vs, stat_std = series_std vs,
      stat_min = Min (set vs), stat_max = Max (set vs),
      stat_q25 = series_quantile vs 0.25, stat_q75 = series_quantile vs 0.75\<rparr>"

text \<open>
  \<open>_calculate_environmental_stats\<close>: the loop over \<open>env_vars\<close>; \<open>columns\<close> are the column
  names of the table.
\<close>

definition env_stats_step ::
    "string list \<Rightarrow> observation list \<Rightarrow> (string \<rightharpoonup> env_stat) \<Rightarrow> string \<Rightarrow> (string \<rightharpoonup> env_stat)" where
  "env_stats_step columns species_data env_stats var =
     (if var \<in> set columns then
        (let vs = dropna (map (\<lambda>r. covariate r var) species_data)
         in if length vs > 5 then env_stats(var \<mapsto> summarize vs) else env_stats)
      else env_stats)"

definition calculate_environmental_stats ::
    "string list \<Rightarrow> observation list \<Rightarrow> (string \<rightharpoonup> env_stat)" where
  "calculate_environmental_stats columns species_data =
     foldl (env_stats_step columns species_data) Map.empty env_vars"

text \<open>
  \<open>_analyze_by_species\<close>: \<open>value_counts\<close> of the species column, the species with at
  least \<open>min_observations = 15\<close> rows, and for each of them its entry of \<open>species_data\<close>,
  kept here in the order of the loop (by descending count).
\<close>

definition species_count :: "observation list \<Rightarrow> string \<Rightarrow> nat" where
  "species_count data s = length (filter (\<lambda>r. Species r = s) data)"

definition value_counts :: "observation list \<Rightarrow> (string \<times> nat) list" where
  "value_counts data =
     sort_key (\<lambda>p. - int (snd p))
       (map (\<lambda>s. (s, species_count data s)) (remdups (map Species data)))"

definition min_observations :: nat where
  "min_observations = 15"

definition valid_species :: "observation list \<Rightarrow> string list" where
  "valid_species data =
     map fst (filter (\<lambda>p. snd p \<ge> min_observations) (value_counts data))"

definition analyze_species :: "string list \<Rightarrow> observation list \<Rightarrow> string \<Rightarrow> species_info" where
  "analyze_species columns data species =
     (let species_data = filter (\<lambda>r. Species r = species) data
      in \<lparr>info_data = species_data,
          info_count = length species_data,
          info_env_stats = calculate_environmental_stats columns species_data,
          info_lat_range = (Min (set (map LAT species_data)), Max (set (map LAT species_data))),
          info_lon_range = (Min (set (map LONG species_data)), Max (set (map LONG species_data)))\<rparr>)"

definition analyze_by_species ::
    "string list \<Rightarrow> observation list \<Rightarrow> (string \<times> species_info) list" where
  "analyze_by_species columns data =
     map (\<lambda>s. (s, analyze_species columns data s)) (valid_species data)"

definition load_and_analyze_data ::
    "string list \<Rightarrow> raw_observation list \<Rightarrow> (string \<times> species_info) list" where
  "load_and_analyze_data columns raw = analyze_by_species columns (dropna_subset raw)"

text \<open>
  A cell of the density grid and of the combined grid is a floating-point value that can
  be \<open>NaN\<close>, which is \<open>None\<close> here. An operation with a \<open>NaN\<close> operand gives \<open>NaN\<close>.
\<close>

type_synonym cell = "real option"

type_synonym cell_grid = "cell list list"

definition nan_sum :: "cell list \<Rightarrow> cell" where
  "nan_sum vs = (if list_ex (\<lambda>v. v = None) vs then None else Some (sum_list (dropna vs)))"

text \<open>
  \<open>_calculate_density_suitability\<close>. With SciPy the weights are a Gaussian kernel of the
  distance, with one bandwidth for the whole grid (0.3 times the standard deviation of all
  the grid-to-observation distances), and the grid is smoothed by SciPy's
  \<open>gaussian_filter\<close>, which is a parameter here: \<open>Some gaussian_filter\<close> when SciPy has been
  imported, \<open>None\<close> when it has not, where the weights are inverse distances.

  The bandwidth is 0 when all the distances are equal. Dividing by it, numpy gives an
  infinity for a positive distance, whose weight \<open>exp(-inf)\<close> is 0, and \<open>NaN\<close> for the
  distance 0, whose weight is \<open>NaN\<close>.
\<close>

definition distance :: "real \<Rightarrow> real \<Rightarrow> observation \<Rightarrow> real" where
  "distance lat lon ob = sqrt ((LAT ob - lat)\<^sup>2 + (LONG ob - lon)\<^sup>2)"

definition obs_count :: "observation \<Rightarrow> real" where
  "obs_count ob = (case Counts ob of None \<Rightarrow> 1 | Some c \<Rightarrow> c)"

definition np_std :: "real list \<Rightarrow> real" where
  "np_std xs =
     sqrt (sum_list (map (\<lambda>x. (x - series_mean xs)\<^sup>2) xs) / real (length xs))"

definition mesh_cells :: "grid \<Rightarrow> grid \<Rightarrow> (real \<times> real) list" where
  "mesh_cells lat_mesh lon_mesh = concat (map2 zip lat_mesh lon_mesh)"

definition all_distances :: "observation list \<Rightarrow> grid \<Rightarrow> grid \<Rightarrow> real list" where
  "all_distances obs lat_mesh lon_mesh =
     concat (map (\<lambda>(lat, lon). map (distance lat lon) obs) (mesh_cells lat_mesh lon_mesh))"

definition kernel_weight :: "real \<Rightarrow> real \<Rightarrow> cell" where
  "kernel_weight bandwidth d =
     (if bandwidth = 0 then (if d = 0 then None else Some 0)
      else Some (exp (- 0.5 * (d / bandwidth)\<^sup>2)))"

definition kernel_density :: "real \<Rightarrow> observation list \<Rightarrow> real \<Rightarrow> real \<Rightarrow> cell" where
  "kernel_density bandwidth obs lat lon =
     nan_sum (map (\<lambda>ob. map_option (\<lambda>w. w * obs_count ob)
                          (kernel_weight bandwidth (distance lat lon ob))) obs)"

definition inverse_distance_density :: "observation list \<Rightarrow> real \<Rightarrow> real \<Rightarrow> real" where
  "inverse_distance_density obs lat lon =
     sum_list (map (\<lambda>ob. 1.0 / (distance lat lon ob + 0.01) * obs_count ob) obs)"

definition calculate_density_suitability ::
    "(cell_grid \<Rightarrow> cell_grid) option \<Rightarrow> observation list \<Rightarrow> grid \<Rightarrow> grid \<Rightarrow> cell_grid" where
  "calculate_density_suitability scipy obs lat_mesh lon_mesh =
     (case scipy of
        Some gaussian_filter \<Rightarrow>
          (let bandwidth = np_std (all_distances obs lat_mesh lon_mesh) * 0.3
           in gaussian_filter (map2 (map2 (kernel_density bandwidth obs)) lat_mesh lon_mesh))
      | None \<Rightarrow>
          map2 (map2 (\<lambda>lat lon. Some (inverse_distance_density obs lat lon))) lat_mesh lon_mesh)"

text \<open>
  \<open>_calculate_environmental_suitability\<close>: a grid of 0.5 when the dictionary of
  statistics has fewer than two entries; otherwise a grid of ones, multiplied in place by
  the temperature score when the dictionary has the key \<open>TempW\<close> and by the depth score
  when it has the key \<open>Detph\<close> (the column name as the source spells it).
\<close>

definition gaussian_falloff :: "real \<Rightarrow> real \<Rightarrow> real \<Rightarrow> real" where
  "gaussian_falloff estimated optimal width = exp (- 0.5 * ((estimated - optimal) / width)\<^sup>2)"

definition estimated_temp :: "real \<Rightarrow> real" where
  "estimated_temp lat = - 2.0 + (lat + 80) * 0.5"

definition estimated_depth :: "real \<Rightarrow> real" where
  "estimated_depth lat = 200 + \<bar>lat + 77\<bar> * 100"

definition temp_suitability :: "env_stat \<Rightarrow> grid \<Rightarrow> grid" where
  "temp_suitability st lat_mesh =
     (let temp_optimal = stat_mean st;
          temp_tolerance = stat_std st
      in map (map (\<lambda>lat. gaussian_falloff (estimated_temp lat) temp_optimal
                           (temp_tolerance + 0.1))) lat_mesh)"

definition depth_suitability :: "env_stat \<Rightarrow> grid \<Rightarrow> grid" where
  "depth_suitability st lat_mesh =
     (let depth_optimal = stat_mean st;
          depth_tolerance = stat_std st
      in map (map (\<lambda>lat. gaussian_falloff (estimated_depth lat) depth_optimal
                           (depth_tolerance + 50))) lat_mesh)"

definition grid_times :: "grid \<Rightarrow> grid \<Rightarrow> grid" where
  "grid_times a b = map2 (map2 (\<lambda>x y. x * y)) a b"

definition calculate_environmental_suitability ::
    "(string \<rightharpoonup> env_stat) \<Rightarrow> grid \<Rightarrow> grid" where
  "calculate_environmental_suitability env_stats lat_mesh =
     (if card (dom env_stats) < 2 then map (map (\<lambda>lat. 1 * 0.5)) lat_mesh
      else
        (let env_suitability = map (map (\<lambda>lat. 1)) lat_mesh;
             env_suitability =
               (case env_stats ''TempW'' of
                  Some st \<Rightarrow> grid_times env_suitability (temp_suitability st lat_mesh)
                | None \<Rightarrow> env_suitability);
             env_suitability =
               (case env_stats ''Detph'' of
                  Some st \<Rightarrow> grid_times env_suitability (depth_suitability st lat_mesh)
                | None \<Rightarrow> env_suitability)
         in env_suitability))"

text \<open>
  The environmental term as the specification words it: every covariate that has a
  statistic is scored by a Gaussian falloff around the species' mean, at a value estimated
  from the latitude, with the species' standard deviation plus a floor as width, and the
  scores of all of them are multiplied. The estimate and the floor of each covariate are
  parameters.
\<close>

definition covariate_score :: "(string \<rightharpoonup> env_stat) \<Rightarrow> string \<Rightarrow> real \<Rightarrow> real \<Rightarrow> real" where
  "covariate_score env_stats var estimated floor_width =
     (case env_stats var of
        None \<Rightarrow> 1
      | Some st \<Rightarrow> gaussian_falloff estimated (stat_mean st) (stat_std st + floor_width))"

definition all_covariates_term ::
    "(string \<Rightarrow> real \<Rightarrow> real) \<Rightarrow> (string \<Rightarrow> real) \<Rightarrow> (string \<rightharpoonup> env_stat) \<Rightarrow> real \<Rightarrow> real" where
  "all_covariates_term proxy floor_width env_stats lat =
     prod_list (map (\<lambda>var. covariate_score env_stats var (proxy var lat) (floor_width var))
                  env_vars)"

text \<open>A table entry with given mean and standard deviation, for the examples below.\<close>

definition flat_stat :: "real \<Rightarrow> real \<Rightarrow> env_stat" where
  "flat_stat m s =
     \<lparr>stat_mean = m, stat_std = s, stat_min = m, stat_max = m, stat_q25 = m, stat_q75 = m\<rparr>"

text \<open>
  \<open>_calculate_habitat_suitability\<close>: the geometric mean of the two terms, divided by its
  maximum when that is positive. \<open>np.sqrt\<close> of a negative number is \<open>NaN\<close>. The maximum
  of an array that has a \<open>NaN\<close> cell is \<open>NaN\<close>, and the comparison of \<open>NaN\<close> with 0 is
  false; \<open>max\<close> of an array with no element raises \<open>ValueError\<close>.
\<close>

definition np_sqrt :: "cell \<Rightarrow> cell" where
  "np_sqrt v = (case v of None \<Rightarrow> None | Some x \<Rightarrow> if x < 0 then None else Some (sqrt x))"

definition combine :: "cell_grid \<Rightarrow> grid \<Rightarrow> cell_grid" where
  "combine suitability_density suitability_env =
     map2 (map2 (\<lambda>d e. np_sqrt (map_option (\<lambda>x. x * e) d))) suitability_density suitability_env"

definition grid_max :: "cell_grid \<Rightarrow> cell" where
  "grid_max g =
     (if list_ex (\<lambda>v. v = None) (concat g) then None else Some (Max (set (dropna (concat g)))))"

definition rescale :: "cell_grid \<Rightarrow> error + cell_grid" where
  "rescale combined_suitability =
     (if concat combined_suitability = [] then Inl ValueError
      else (case grid_max combined_suitability of
              Some m \<Rightarrow>
                if m > 0 then Inr (map (map (map_option (\<lambda>v. v / m))) combined_suitability)
                else Inr combined_suitability
            | None \<Rightarrow> Inr combined_suitability))"

definition calculate_habitat_suitability ::
    "(cell_grid \<Rightarrow> cell_grid) option \<Rightarrow> observation list \<Rightarrow> (string \<rightharpoonup> env_stat) \<Rightarrow> grid \<Rightarrow> grid
      \<Rightarrow> error + cell_grid" where
  "calculate_habitat_suitability scipy species_data env_stats lat_mesh lon_mesh =
     rescale (combine (calculate_density_suitability scipy species_data lat_mesh lon_mesh)
                (calculate_environmental_suitability env_stats lat_mesh))"

text \<open>
  \<open>generate_species_suitability_maps\<close>: the mesh over the species' bounding box widened
  by 15 percent on each side, and one grid for each entry of \<open>species_data\<close>; an exception
  in one species ends the loop.
\<close>

definition arange :: "real \<Rightarrow> real \<Rightarrow> real \<Rightarrow> real list" where
  "arange start stop step =
     map (\<lambda>i. start + real i * step) [0..<nat \<lceil>(stop - start) / step\<rceil>]"

definition species_mesh :: "real \<Rightarrow> species_info \<Rightarrow> grid \<times> grid" where
  "species_mesh resolution info =
     (let (lat_min, lat_max) = info_lat_range info;
          (lon_min, lon_max) = info_lon_range info;
          lat_margin = (lat_max - lat_min) * 0.15;
          lon_margin = (lon_max - lon_min) * 0.15;
          lat_grid = arange (lat_min - lat_margin) (lat_max + lat_margin) resolution;
          lon_grid = arange (lon_min - lon_margin) (lon_max + lon_margin) resolution
      in (map (\<lambda>lat. map (\<lambda>_. lat) lon_grid) lat_grid, map (\<lambda>_. lon_grid) lat_grid))"

fun generate_species_suitability_maps ::
    "(cell_grid \<Rightarrow> cell_grid) option \<Rightarrow> real \<Rightarrow> (string \<times> species_info) list
      \<Rightarrow> error + (string \<times> cell_grid) list" where
  "generate_species_suitability_maps scipy resolution [] = Inr []"
| "generate_species_suitability_maps scipy resolution ((species_name, info) # rest) =
     (case species_mesh resolution info of
        (lat_mesh, lon_mesh) \<Rightarrow>
          (case calculate_habitat_suitability scipy (info_data info) (info_env_stats info)
                  lat_mesh lon_mesh of
             Inl e \<Rightarrow> Inl e
           | Inr suitability \<Rightarrow>
               (case generate_species_suitability_maps scipy resolution rest of
                  Inl e \<Rightarrow> Inl e
                | Inr maps \<Rightarrow> Inr ((species_name, suitability) # maps))))"


section \<open>Region sort key (BaseAnalysis, species richness by region)\<close>

text \<open>
  The richness-by-region script orders its output rows with a key computed by a loop over
  the characters of the region code: the characters for which \<open>str.isdigit\<close> holds are
  appended to \<open>number\<close>, every other character overwrites \<open>letter\<close>, and the key is the
  pair \<open>(int(number) if number else 0, letter)\<close>. Python compares such tuples
  lexicographically, integers by value and strings by code point; the same orders are the
  ones of \<open>int \<times> string\<close> here.

  A string is the list of its code points, a \<open>char\<close> being a code point below 256.
  Among these, \<open>str.isdigit\<close> holds for the ten decimal digits and for the superscripts
  two, three and one (code points B2, B3 and B9), and \<open>int\<close> raises \<open>ValueError\<close> on a
  string that has a character which is not a decimal digit.
\<close>

definition isdecimal :: "char \<Rightarrow> bool" where
  "isdecimal c = (c \<in> set ''0123456789'')"

definition isdigit :: "char \<Rightarrow> bool" where
  "isdigit c = (isdecimal c \<or> c \<in> set [CHR 0xB2, CHR 0xB3, CHR 0xB9])"

definition digit_value :: "char \<Rightarrow> nat" where
  "digit_value c = of_char c - 48"

fun scan_region :: "string \<Rightarrow> string \<Rightarrow> string \<Rightarrow> string \<times> string" where
  "scan_region [] number letter = (number, letter)"
| "scan_region (c # cs) number letter =
     (if isdigit c then scan_region cs (number @ [c]) letter
      else scan_region cs number [c])"

definition int_of_digits :: "string \<Rightarrow> int" where
  "int_of_digits s = int (foldl (\<lambda>n c. 10 * n + digit_value c) 0 s)"

definition int_of_number :: "string \<Rightarrow> error + int" where
  "int_of_number number =
     (if list_all isdecimal number then Inr (int_of_digits number) else Inl ValueError)"

definition region_sort_key :: "string \<Rightarrow> error + int \<times> string" where
  "region_sort_key region =
     (case scan_region region [] [] of
        (number, letter) \<Rightarrow>
          if number \<noteq> [] then
            (case int_of_number number of Inl e \<Rightarrow> Inl e | Inr n \<Rightarrow> Inr (n, letter))
          else Inr (0, letter))"

text \<open>
  \<open>sort_values(by='Region', key=lambda x: x.map(region_sort_key))\<close>: the keys of all rows
  are computed first, so an exception in one of them leaves no sorted table; then the
  rows are ordered by their keys.
\<close>

fun keyed_rows :: "(string \<times> 'a) list \<Rightarrow> error + ((int \<times> string) \<times> string \<times> 'a) list" where
  "keyed_rows [] = Inr []"
| "keyed_rows (r # rs) =
     (case region_sort_key (fst r) of
        Inl e \<Rightarrow> Inl e
      | Inr k \<Rightarrow> (case keyed_rows rs of Inl e \<Rightarrow> Inl e | Inr ks \<Rightarrow> Inr ((k, r) # ks)))"

definition sort_by_region :: "(string \<times> 'a) list \<Rightarrow> error + (string \<times> 'a) list" where
  "sort_by_region rows =
     (case keyed_rows rows of Inl e \<Rightarrow> Inl e | Inr ks \<Rightarrow> Inr (map snd (sort_key fst ks)))"






section \<open>Tabular aggregation scripts (BaseAnalysis)\<close>

text \<open>
  A row of the observation table \<open>S39_BM_pre.csv\<close>, with the columns the scripts read.
  A missing value is \<open>None\<close>. Parsing a date string is pandas' \<open>to_datetime\<close>, a
  parameter of the scripts' models: it yields \<open>None\<close> for a string that does not match
  the format.
\<close>

record sighting =
  row_Date :: "string option"
  row_Species :: "string option"
  row_Region :: "string option"
  row_Count :: "real option"

text \<open>\<open>data[data['Count'] > 0]\<close>: a comparison with \<open>NaN\<close> is false.\<close>

definition positive_count :: "sighting \<Rightarrow> bool" where
  "positive_count r = (case row_Count r of None \<Rightarrow> False | Some c \<Rightarrow> 0 < c)"

text \<open>\<open>nunique\<close> counts the distinct values that are not missing.\<close>

definition nunique :: "'a option list \<Rightarrow> nat" where
  "nunique vs = length (remdups (dropna vs))"

text \<open>The keys of a \<open>groupby\<close>: the distinct keys that are not missing, in sorted order.\<close>

definition group_keys :: "('k :: linorder) option list \<Rightarrow> 'k list" where
  "group_keys ks = sort (remdups (dropna ks))"

subsection \<open>Species richness by region and by month\<close>

definition species_richness_by_region :: "sighting list \<Rightarrow> (string \<times> nat) list" where
  "species_richness_by_region data =
     (let filtered_data = filter positive_count data
      in map (\<lambda>g. (g, nunique (map row_Species
                                   (filter (\<lambda>r. row_Region r = Some g) filtered_data))))
           (group_keys (map row_Region filtered_data)))"

definition sorted_richness_by_region :: "sighting list \<Rightarrow> error + (string \<times> nat) list" where
  "sorted_richness_by_region data = sort_by_region (species_richness_by_region data)"

text \<open>
  \<open>pd.to_datetime('2023-' + Date, format='%Y-%d-%b')\<close> followed by
  \<open>dt.to_period('M')\<close>: a missing date stays missing, a date that does not match the
  format raises \<open>ValueError\<close>.
\<close>

definition to_period_strict ::
    "(string \<Rightarrow> 'm option) \<Rightarrow> string option list \<Rightarrow> error + 'm option list" where
  "to_period_strict to_period dates =
     (if list_ex (\<lambda>d. case d of None \<Rightarrow> False | Some s \<Rightarrow> to_period (''2023-'' @ s) = None) dates
      then Inl ValueError
      else Inr (map (\<lambda>d. case d of None \<Rightarrow> None | Some s \<Rightarrow> to_period (''2023-'' @ s)) dates))"

definition species_richness_month ::
    "(string \<Rightarrow> ('m :: linorder) option) \<Rightarrow> sighting list \<Rightarrow> error + ('m \<times> nat) list" where
  "species_richness_month to_period data =
     (let filtered_data = filter positive_count data
      in case to_period_strict to_period (map row_Date filtered_data) of
           Inl e \<Rightarrow> Inl e
         | Inr months \<Rightarrow>
             Inr (map (\<lambda>m. (m, nunique (map (\<lambda>p. row_Species (snd p))
                                          (filter (\<lambda>p. fst p = Some m)
                                             (zip months filtered_data)))))
                    (group_keys months)))"

subsection \<open>Percentage shares\<close>

text \<open>
  The result of a floating-point division: pandas divides by zero without raising, and
  gives \<open>NaN\<close> for \<open>0 / 0\<close> and an infinity for any other numerator.
\<close>

datatype float_value = Finite real | PosInf | NegInf | NaN

definition float_div :: "real \<Rightarrow> real \<Rightarrow> float_value" where
  "float_div a b =
     (if b \<noteq> 0 then Finite (a / b)
      else if a = 0 then NaN else if 0 < a then PosInf else NegInf)"

definition times_100 :: "float_value \<Rightarrow> float_value" where
  "times_100 v = (case v of Finite x \<Rightarrow> Finite (x * 100) | other \<Rightarrow> other)"

text \<open>
  The monthly species percentage script: the date string gets the year appended and is
  parsed with \<open>errors='coerce'\<close>; rows without a date or a species are dropped; the counts
  are summed by date and species (missing counts are skipped by \<open>sum\<close>); when the grouped
  table is empty nothing is written; otherwise each row gets its count divided by the total
  of its date, times 100.
\<close>

definition dated_rows ::
    "(string \<Rightarrow> 'd option) \<Rightarrow> sighting list \<Rightarrow> (('d \<times> string) \<times> real option) list" where
  "dated_rows to_datetime data =
     List.map_filter
       (\<lambda>r. case (case row_Date r of None \<Rightarrow> None | Some x \<Rightarrow> to_datetime (x @ ''-2023''),
                   row_Species r) of
               (Some d, Some s) \<Rightarrow> Some ((d, s), row_Count r)
             | _ \<Rightarrow> None)
       data"

definition monthly_species_count ::
    "(string \<Rightarrow> ('d :: linorder) option) \<Rightarrow> sighting list \<Rightarrow> ('d \<times> string \<times> real) list" where
  "monthly_species_count to_datetime data =
     (let keyed = dated_rows to_datetime data
      in map (\<lambda>k. (fst k, snd k,
                    sum_list (dropna (map snd (filter (\<lambda>p. fst p = k) keyed)))))
           (sort (remdups (map fst keyed))))"

definition monthly_total_count :: "('d \<times> string \<times> real) list \<Rightarrow> 'd \<Rightarrow> real" where
  "monthly_total_count grouped d =
     sum_list (map (\<lambda>g. snd (snd g)) (filter (\<lambda>g. fst g = d) grouped))"

definition monthly_species_percentage ::
    "(string \<Rightarrow> ('d :: linorder) option) \<Rightarrow> sighting list
      \<Rightarrow> ('d \<times> string \<times> real \<times> float_value) list option" where
  "monthly_species_percentage to_datetime data =
     (let grouped = monthly_species_count to_datetime data
      in if grouped = [] then None
         else Some (map (\<lambda>g. (fst g, fst (snd g), snd (snd g),
                               times_100 (float_div (snd (snd g))
                                            (monthly_total_count grouped (fst g)))))
                      grouped))"

text \<open>
  The region rate script reads the table of richness by region and month and divides each
  richness by the total of its date. A row without a date gets \<open>NaN\<close> from \<open>transform\<close>.
\<close>

record region_month =
  rm_Region :: "string option"
  rm_Date :: "string option"
  rm_Species_Richness :: "real option"

definition region_rate :: "region_month list \<Rightarrow> (string option \<times> string option \<times> float_value) list" where
  "region_rate data =
     map (\<lambda>r. (rm_Region r, rm_Date r,
                case (rm_Date r, rm_Species_Richness r) of
                  (Some d, Some x) \<Rightarrow>
                    float_div x (sum_list (dropna (map rm_Species_Richness
                                                    (filter (\<lambda>q. rm_Date q = Some d) data))))
                | _ \<Rightarrow> NaN))
       data"

subsection \<open>Monthly Shannon index\<close>

text \<open>
  \<open>calculate_shannon_diversity\<close> is applied to the rows of a month: the proportions are
  those of the \<open>Count\<close> column of the group, one for each row.
\<close>

definition calculate_shannon_diversity :: "real list \<Rightarrow> real" where
  "calculate_shannon_diversity counts =
     (let proportions = map (\<lambda>c. c / sum_list counts) counts
      in - sum_list (map (\<lambda>p. p * ln p) proportions))"

definition shannon_diversity_month ::
    "(string \<Rightarrow> ('m :: linorder) option) \<Rightarrow> sighting list \<Rightarrow> error + ('m \<times> real) list" where
  "shannon_diversity_month to_period data =
     (let filtered_data = filter positive_count data
      in case to_period_strict to_period (map row_Date filtered_data) of
           Inl e \<Rightarrow> Inl e
         | Inr months \<Rightarrow>
             Inr (map (\<lambda>m. (m, calculate_shannon_diversity
                                 (dropna (map (\<lambda>p. row_Count (snd p))
                                            (filter (\<lambda>p. fst p = Some m)
                                               (zip months filtered_data))))))
                    (group_keys months)))"

text \<open>
  The index over species, as the specification defines it: the shares are those of the
  species' totals within the month.
\<close>

definition species_totals :: "(string \<times> real) list \<Rightarrow> real list" where
  "species_totals rows =
     map (\<lambda>s. sum_list (map snd (filter (\<lambda>r. fst r = s) rows))) (remdups (map fst rows))"

definition shannon_over_species :: "(string \<times> real) list \<Rightarrow> real" where
  "shannon_over_species rows = calculate_shannon_diversity (species_totals rows)"

text \<open>
  The richness of a group as the glossary defines it: the number of distinct species
  among the rows of the group that have a positive count.
\<close>

definition group_species :: "(sighting \<Rightarrow> 'k option) \<Rightarrow> sighting list \<Rightarrow> 'k \<Rightarrow> string set" where
  "group_species key data g =
     {s. \<exists>r \<in> set data. positive_count r \<and> key r = Some g \<and> row_Species r = Some s}"

definition month_of :: "(string \<Rightarrow> 'm option) \<Rightarrow> sighting \<Rightarrow> 'm option" where
  "month_of to_period r =
     (case row_Date r of None \<Rightarrow> None | Some s \<Rightarrow> to_period (''2023-'' @ s))"


section \<open>Raster text files (the writer of CMEMS/CMEMStrans.py and the ASC reader)\<close>

text \<open>
  A raster file is the list of its lines, without the line ends. The cells of the array
  handed to the writer are floating-point values, which can be \<open>NaN\<close> or infinite; the
  finite ones are reals.
\<close>

subsection \<open>Formatting and parsing numbers\<close>

definition digit_char :: "nat \<Rightarrow> char" where
  "digit_char d = ''0123456789'' ! d"

function show_nat :: "nat \<Rightarrow> string" where
  "show_nat n = (if n < 10 then [digit_char n] else show_nat (n div 10) @ [digit_char (n mod 10)])"
  by pat_completeness auto
termination
  by (relation "measure (\<lambda>n. n)") auto

text \<open>Rounding to the nearest integer, ties to the even one, as the formatting does.\<close>

definition round_half_even :: "real \<Rightarrow> int" where
  "round_half_even y =
     (let f = \<lfloor>y\<rfloor>; d = y - of_int f
      in if d < 1 / 2 then f else if 1 / 2 < d then f + 1 else if even f then f else f + 1)"

definition zero_pad :: "nat \<Rightarrow> string \<Rightarrow> string" where
  "zero_pad k s = replicate (k - length s) CHR ''0'' @ s"

text \<open>\<open>f"{x:.kf}"\<close>: the sign, the integer part, a point and \<open>k\<close> decimals.\<close>

definition format_fixed :: "nat \<Rightarrow> real \<Rightarrow> string" where
  "format_fixed k x =
     (let n = nat (round_half_even (\<bar>x\<bar> * 10 ^ k))
      in (if x < 0 then ''-'' else [])
         @ show_nat (n div 10 ^ k) @ ''.'' @ zero_pad k (show_nat (n mod 10 ^ k)))"

text \<open>
  \<open>int(s)\<close> and \<open>float(s)\<close> for decimal numerals: an optional sign, digits, and for
  \<open>float\<close> an optional point and decimals. Any other string is a \<open>ValueError\<close> here
  (Python also reads exponents, \<open>inf\<close> and \<open>nan\<close>, which the writer never produces).
\<close>

definition py_int_unsigned :: "string \<Rightarrow> real option" where
  "py_int_unsigned s =
     (if s \<noteq> [] \<and> list_all isdecimal s then Some (of_int (int_of_digits s)) else None)"

definition py_int :: "string \<Rightarrow> real option" where
  "py_int s =
     (case s of
        [] \<Rightarrow> None
      | c # cs \<Rightarrow>
          if c = CHR ''-'' then map_option uminus (py_int_unsigned cs)
          else if c = CHR ''+'' then py_int_unsigned cs
          else py_int_unsigned s)"

definition py_float_unsigned :: "string \<Rightarrow> real option" where
  "py_float_unsigned s =
     (let ip = takeWhile isdecimal s; rest = dropWhile isdecimal s
      in case rest of
           [] \<Rightarrow> if ip = [] then None else Some (of_int (int_of_digits ip))
         | c # fp \<Rightarrow>
             if c = CHR ''.'' \<and> list_all isdecimal fp \<and> (ip \<noteq> [] \<or> fp \<noteq> [])
             then Some (of_int (int_of_digits ip) + of_int (int_of_digits fp) / 10 ^ length fp)
             else None)"

definition py_float :: "string \<Rightarrow> real option" where
  "py_float s =
     (case s of
        [] \<Rightarrow> None
      | c # cs \<Rightarrow>
          if c = CHR ''-'' then map_option uminus (py_float_unsigned cs)
          else if c = CHR ''+'' then py_float_unsigned cs
          else py_float_unsigned s)"

subsection \<open>Lines and tokens\<close>

text \<open>
  The ASCII characters that \<open>str.strip\<close> and \<open>str.split\<close> take as white space: tab,
  line feed, vertical tab, form feed, carriage return, the four separators 28 to 31, and
  the space.
\<close>

definition isspace :: "char \<Rightarrow> bool" where
  "isspace c = (of_char c \<in> {9 :: nat, 10, 11, 12, 13, 28, 29, 30, 31, 32})"

definition strip :: "string \<Rightarrow> string" where
  "strip s = rev (dropWhile isspace (rev (dropWhile isspace s)))"

fun split_from :: "string \<Rightarrow> string \<Rightarrow> string list" where
  "split_from [] cur = (if cur = [] then [] else [cur])"
| "split_from (c # cs) cur =
     (if isspace c then (if cur = [] then split_from cs [] else cur # split_from cs [])
      else split_from cs (cur @ [c]))"

definition split :: "string \<Rightarrow> string list" where
  "split s = split_from s []"

fun join_with_space :: "string list \<Rightarrow> string" where
  "join_with_space [] = []"
| "join_with_space [t] = t"
| "join_with_space (t # ts) = t @ '' '' @ join_with_space ts"

definition lower_char :: "char \<Rightarrow> char" where
  "lower_char c =
     (case map_of (zip ''ABCDEFGHIJKLMNOPQRSTUVWXYZ'' ''abcdefghijklmnopqrstuvwxyz'') c of
        Some l \<Rightarrow> l
      | None \<Rightarrow> c)"

definition lower :: "string \<Rightarrow> string" where
  "lower s = map lower_char s"

subsection \<open>The writer: \<open>save_monthly_layer\<close>\<close>

text \<open>
  \<open>NaN\<close> and infinite cells become the sentinel; when the latitudes are ascending the
  rows are reversed, so that the first row written is the northernmost; then the six
  header lines and one line for each row are written. The file name and directory, which
  the other arguments determine, are not modelled. The minimum of an empty coordinate
  vector raises \<open>ValueError\<close>.
\<close>

definition mask_missing :: "float_value \<Rightarrow> real" where
  "mask_missing v = (case v of Finite x \<Rightarrow> x | other \<Rightarrow> - 9999)"

definition format_cell :: "real \<Rightarrow> string" where
  "format_cell val = (if val \<noteq> - 9999 then format_fixed 4 val else ''-9999'')"

definition north_to_south :: "real list \<Rightarrow> 'a list \<Rightarrow> real list \<times> 'a list" where
  "north_to_south lats data =
     (if length lats > 1 \<and> hd lats < last lats then (rev lats, rev data) else (lats, data))"

definition save_monthly_layer ::
    "float_value list list \<Rightarrow> real list \<Rightarrow> real list \<Rightarrow> error + string list" where
  "save_monthly_layer data lons lats =
     (case north_to_south lats (map (map mask_missing) data) of
        (lats, data) \<Rightarrow>
          if lons = [] \<or> lats = [] then Inl ValueError
          else
            (let ncols = length lons;
                 nrows = length lats;
                 xllcorner = Min (set lons);
                 yllcorner = Min (set lats);
                 cellsize = (if length lons > 1 then \<bar>lons ! 1 - lons ! 0\<bar> else 0.083)
             in Inr ([''ncols '' @ show_nat ncols,
                      ''nrows '' @ show_nat nrows,
                      ''xllcorner '' @ format_fixed 6 xllcorner,
                      ''yllcorner '' @ format_fixed 6 yllcorner,
                      ''cellsize '' @ format_fixed 6 cellsize,
                      ''NODATA_value -9999'']
                     @ map (\<lambda>row. join_with_space (map format_cell row)) data)))"

subsection \<open>The reader: \<open>ASCReader.read_asc_file\<close>\<close>

text \<open>
  The first six lines are the header: the lower-cased first token is the key, the second
  is read with \<open>float\<close> when it has a point and with \<open>int\<close> otherwise. Every other line
  that is not blank is a row of numbers. The cells equal to the header's
  \<open>nodata_value\<close> (or to -9999 when the header has none) are replaced by \<open>NaN\<close>. The
  source catches every exception and returns \<open>False\<close>; here the exception is the result.
  Rows of different lengths do not form an array.
\<close>

definition parse_header_value :: "string \<Rightarrow> real option" where
  "parse_header_value tok = (if CHR ''.'' \<in> set tok then py_float tok else py_int tok)"

fun read_header :: "string list \<Rightarrow> (string \<rightharpoonup> real) \<Rightarrow> error + (string \<rightharpoonup> real)" where
  "read_header [] header = Inr header"
| "read_header (l # ls) header =
     (let line = strip l
      in if line = [] then read_header ls header
         else (case split line of
                 key # tok # _ \<Rightarrow>
                   (case parse_header_value tok of
                      None \<Rightarrow> Inl ValueError
                    | Some v \<Rightarrow> read_header ls (header(lower key \<mapsto> v)))
               | _ \<Rightarrow> Inl IndexError))"

fun parse_all :: "string list \<Rightarrow> error + real list" where
  "parse_all [] = Inr []"
| "parse_all (t # ts) =
     (case py_float t of
        None \<Rightarrow> Inl ValueError
      | Some v \<Rightarrow> (case parse_all ts of Inl e \<Rightarrow> Inl e | Inr vs \<Rightarrow> Inr (v # vs)))"

fun read_rows :: "string list \<Rightarrow> error + real list list" where
  "read_rows [] = Inr []"
| "read_rows (l # ls) =
     (let line = strip l
      in if line = [] then read_rows ls
         else (case parse_all (split line) of
                 Inl e \<Rightarrow> Inl e
               | Inr row \<Rightarrow> (case read_rows ls of Inl e \<Rightarrow> Inl e | Inr rows \<Rightarrow> Inr (row # rows))))"

definition rectangular :: "'a list list \<Rightarrow> bool" where
  "rectangular rows = (case rows of [] \<Rightarrow> True | r # rs \<Rightarrow> list_all (\<lambda>q. length q = length r) rs)"

definition read_asc_file :: "string list \<Rightarrow> error + (string \<rightharpoonup> real) \<times> float_value list list" where
  "read_asc_file lines =
     (if length lines < 6 then Inl IndexError
      else case read_header (take 6 lines) Map.empty of
             Inl e \<Rightarrow> Inl e
           | Inr header \<Rightarrow>
               (case read_rows (drop 6 lines) of
                  Inl e \<Rightarrow> Inl e
                | Inr data \<Rightarrow>
                    if \<not> rectangular data then Inl ValueError
                    else
                      (let nodata_value =
                             (case header ''nodata_value'' of Some v \<Rightarrow> v | None \<Rightarrow> - 9999)
                       in Inr (header,
                               map (map (\<lambda>v. if v = nodata_value then NaN else Finite v))
                                 data))))"

text \<open>
  The statistics shown for a file read (\<open>nanmin\<close>, \<open>nanmax\<close>, \<open>nanmean\<close>) are taken over
  the cells of the grid that are not \<open>NaN\<close>.
\<close>

definition valid_cells :: "float_value list list \<Rightarrow> real list" where
  "valid_cells grid = concat (map (List.map_filter (\<lambda>v. case v of Finite x \<Rightarrow> Some x | other \<Rightarrow> None)) grid)"

definition file_statistics :: "float_value list list \<Rightarrow> (real \<times> real \<times> real) option" where
  "file_statistics grid =
     (let cells = valid_cells grid
      in if cells = [] then None
         else Some (Min (set cells), Max (set cells), sum_list cells / real (length cells)))"

text \<open>
  The value that the text written for a finite cell denotes, and what a cell of the
  array is read back as: a cell that is not finite, or whose text denotes the sentinel, is
  read back as \<open>NaN\<close>.
\<close>

definition round_to :: "nat \<Rightarrow> real \<Rightarrow> real" where
  "round_to k x =
     (if x < 0 then - 1 else 1) * of_int (round_half_even (\<bar>x\<bar> * 10 ^ k)) / 10 ^ k"

definition read_back :: "float_value \<Rightarrow> float_value" where
  "read_back v =
     (case v of
        Finite x \<Rightarrow> if round_to 4 x = - 9999 then NaN else Finite (round_to 4 x)
      | other \<Rightarrow> NaN)"

text \<open>
  A token is a string that is not empty and has no white space; \<open>written_value\<close> is the
  number that the text written for a (masked) cell denotes.
\<close>

definition token :: "string \<Rightarrow> bool" where
  "token s = (s \<noteq> [] \<and> list_all (\<lambda>c. \<not> isspace c) s)"

definition written_value :: "real \<Rightarrow> real" where
  "written_value val = (if val \<noteq> - 9999 then round_to 4 val else - 9999)"

text \<open>
  What a cell would be read back as if only the cells that are not finite were masked,
  as the round-trip property of the specification words it.
\<close>

definition masked_or_rounded :: "float_value \<Rightarrow> float_value" where
  "masked_or_rounded v = (case v of Finite x \<Rightarrow> Finite (round_to 4 x) | other \<Rightarrow> NaN)"


section \<open>Properties of the habitat suitability grid builder\<close>

lemma env_stats_fold_lookup:
  "foldl (env_stats_step columns species_data) m vs v =
     (if v \<in> set vs \<and> v \<in> set columns
          \<and> 5 < length (dropna (map (\<lambda>r. covariate r v) species_data))
      then Some (summarize (dropna (map (\<lambda>r. covariate r v) species_data)))
      else m v)"
proof (induction vs arbitrary: m)
  case Nil
  show ?case by simp
next
  case (Cons u us)
  show ?case
    unfolding foldl_Cons Cons.IH
    by (auto simp add: env_stats_step_def Let_def)
qed

lemma env_stats_lookup:
  "calculate_environmental_stats columns species_data v =
     (if v \<in> set env_vars \<and> v \<in> set columns
          \<and> 6 \<le> length (dropna (map (\<lambda>r. covariate r v) species_data))
      then Some (summarize (dropna (map (\<lambda>r. covariate r v) species_data)))
      else None)"
  unfolding calculate_environmental_stats_def env_stats_fold_lookup by auto

lemma value_counts_set:
  "set (value_counts data) = (\<lambda>s. (s, species_count data s)) ` set (map Species data)"
  by (simp add: value_counts_def)

lemma species_count_pos:
  "0 < species_count data s \<longleftrightarrow> s \<in> set (map Species data)"
  by (auto simp add: species_count_def filter_empty_conv)

lemma valid_species_set:
  "set (valid_species data) = {s. min_observations \<le> species_count data s}"
proof -
  have "min_observations \<le> species_count data s \<Longrightarrow> s \<in> set (map Species data)" for s
    using species_count_pos [of data s] by (simp add: min_observations_def)
  then have "s \<in> set (valid_species data) \<longleftrightarrow> min_observations \<le> species_count data s" for s
    unfolding valid_species_def set_map set_filter value_counts_set by force
  then show ?thesis by blast
qed

lemma analyze_by_species_keys:
  "map fst (analyze_by_species columns data) = valid_species data"
  by (simp add: analyze_by_species_def comp_def)

lemma generate_maps_keys:
  "generate_species_suitability_maps scipy resolution species_data = Inr maps
     \<Longrightarrow> map fst maps = map fst species_data"
proof (induction species_data arbitrary: maps)
  case Nil
  then show ?case by simp
next
  case (Cons p rest)
  then show ?case
    by (cases p) (auto split: prod.splits sum.splits)
qed


lemma map2_same_list:
  "map2 f (map g xs) (map h xs) = map (\<lambda>x. f (g x) (h x)) xs"
  by (induction xs) simp_all

lemma grid_times_same_mesh:
  "grid_times (map (map f) mesh) (map (map g) mesh) = map (map (\<lambda>x. f x * g x)) mesh"
  unfolding grid_times_def map2_same_list ..

lemma environmental_suitability_cells:
  assumes "2 \<le> card (dom env_stats)"
  shows "calculate_environmental_suitability env_stats lat_mesh =
     map (map (\<lambda>lat. covariate_score env_stats ''TempW'' (estimated_temp lat) 0.1
                    * covariate_score env_stats ''Detph'' (estimated_depth lat) 50)) lat_mesh"
proof -
  from assms have big: "\<not> card (dom env_stats) < 2" by simp
  show ?thesis
  proof (cases "env_stats ''TempW''")
    case None
    note t = None
    show ?thesis
    proof (cases "env_stats ''Detph''")
      case None
      with t big show ?thesis
        by (simp add: calculate_environmental_suitability_def covariate_score_def)
    next
      case (Some d)
      with t big show ?thesis
        by (simp add: calculate_environmental_suitability_def covariate_score_def
            depth_suitability_def grid_times_same_mesh)
    qed
  next
    case (Some st)
    note t = Some
    show ?thesis
    proof (cases "env_stats ''Detph''")
      case None
      with t big show ?thesis
        by (simp add: calculate_environmental_suitability_def covariate_score_def
            temp_suitability_def grid_times_same_mesh)
    next
      case (Some d)
      with t big show ?thesis
        by (simp add: calculate_environmental_suitability_def covariate_score_def
            temp_suitability_def depth_suitability_def grid_times_same_mesh)
    qed
  qed
qed

lemma gaussian_falloff_le_one: "gaussian_falloff e m w \<le> 1"
  by (simp add: gaussian_falloff_def)

lemma gaussian_falloff_pos: "0 < gaussian_falloff e m w"
  by (simp add: gaussian_falloff_def)

lemma gaussian_falloff_one:
  assumes "gaussian_falloff e m w = 1" and "w \<noteq> 0"
  shows "e = m"
proof -
  from assms(1) have "- 0.5 * ((e - m) / w)\<^sup>2 = 0"
    unfolding gaussian_falloff_def by simp
  then have "(e - m) / w = 0" by simp
  with assms(2) show ?thesis by simp
qed

lemma unit_product:
  fixes a b :: real
  assumes "a * b = 1" "0 < a" "a \<le> 1" "0 < b" "b \<le> 1"
  shows "a = 1"
proof (rule ccontr)
  assume "a \<noteq> 1"
  with assms have "a < 1" by simp
  with assms have "a * b < 1 * 1" by (intro mult_less_le_imp_less) simp_all
  with assms show False by simp
qed

lemma salinity_ph_code:
  "calculate_environmental_suitability
     [''Salinity'' \<mapsto> flat_stat m 1, ''pH'' \<mapsto> flat_stat 8 1] lat_mesh
   = map (map (\<lambda>lat. 1)) lat_mesh"
proof -
  have "2 \<le> card (dom [''Salinity'' \<mapsto> flat_stat m 1, ''pH'' \<mapsto> flat_stat 8 1])"
    by simp
  from environmental_suitability_cells [OF this, of lat_mesh]
  show ?thesis by (simp add: covariate_score_def)
qed

lemma salinity_ph_term:
  "all_covariates_term proxy floor_width
     [''Salinity'' \<mapsto> flat_stat m 1, ''pH'' \<mapsto> flat_stat 8 1] lat
   = gaussian_falloff (proxy ''Salinity'' lat) m (1 + floor_width ''Salinity'')
     * gaussian_falloff (proxy ''pH'' lat) 8 (1 + floor_width ''pH'')"
  by (simp add: all_covariates_term_def env_vars_def covariate_score_def flat_stat_def)

text \<open>
  C9. A species is an entry of \<open>species_data\<close> exactly when it has at least 15 rows (with
  latitude, longitude and species present), and when the maps are generated the species
  with a grid are the same ones: a species with fewer than 15 observations gets no entry and
  no grid. A covariate is a key of a species' statistics exactly when it is one of the six
  environmental variables, a column of the table, and has at least 6 values that are not
  missing among the rows of that species; the statistics of a species are computed from
  its own rows.
\<close>

theorem sparse_species_and_covariates_skipped:
  "(s \<in> fst ` set (load_and_analyze_data columns raw)
      \<longleftrightarrow> 15 \<le> species_count (dropna_subset raw) s)
   \<and> (generate_species_suitability_maps scipy resolution (load_and_analyze_data columns raw)
         = Inr maps
       \<longrightarrow> (s \<in> fst ` set maps \<longleftrightarrow> 15 \<le> species_count (dropna_subset raw) s))
   \<and> (var \<in> dom (calculate_environmental_stats columns species_data)
      \<longleftrightarrow> var \<in> set env_vars \<and> var \<in> set columns
          \<and> 6 \<le> length (dropna (map (\<lambda>r. covariate r var) species_data)))
   \<and> (map_of (load_and_analyze_data columns raw) s = Some info
       \<longrightarrow> info_env_stats info =
            calculate_environmental_stats columns
              (filter (\<lambda>r. Species r = s) (dropna_subset raw)))"
proof -
  have keys: "fst ` set (load_and_analyze_data columns raw)
      = {s. 15 \<le> species_count (dropna_subset raw) s}"
  proof -
    have "fst ` set (load_and_analyze_data columns raw)
        = set (map fst (analyze_by_species columns (dropna_subset raw)))"
      by (simp add: load_and_analyze_data_def)
    then show ?thesis
      by (simp only: analyze_by_species_keys valid_species_set min_observations_def)
  qed
  have c1: "s \<in> fst ` set (load_and_analyze_data columns raw)
      \<longleftrightarrow> 15 \<le> species_count (dropna_subset raw) s"
    unfolding keys by simp
  have c2: "s \<in> fst ` set maps \<longleftrightarrow> 15 \<le> species_count (dropna_subset raw) s"
    if "generate_species_suitability_maps scipy resolution (load_and_analyze_data columns raw)
         = Inr maps"
  proof -
    from generate_maps_keys [OF that]
    have "set (map fst maps) = set (map fst (load_and_analyze_data columns raw))" by simp
    then have "fst ` set maps = fst ` set (load_and_analyze_data columns raw)" by simp
    with c1 show ?thesis by simp
  qed
  have c3: "var \<in> dom (calculate_environmental_stats columns species_data)
      \<longleftrightarrow> var \<in> set env_vars \<and> var \<in> set columns
          \<and> 6 \<le> length (dropna (map (\<lambda>r. covariate r var) species_data))"
    by (simp add: dom_def env_stats_lookup)
  have c4: "info_env_stats info =
      calculate_environmental_stats columns (filter (\<lambda>r. Species r = s) (dropna_subset raw))"
    if "map_of (load_and_analyze_data columns raw) s = Some info"
  proof -
    from that have "(s, info) \<in> set (load_and_analyze_data columns raw)"
      by (rule map_of_SomeD)
    then have "info = analyze_species columns (dropna_subset raw) s"
      by (auto simp add: load_and_analyze_data_def analyze_by_species_def)
    then show ?thesis by (simp add: analyze_species_def Let_def)
  qed
  from c1 c2 c3 c4 show ?thesis by blast
qed

theorem sparse_species_and_covariates_skipped_witness:
  "''Adelie'' \<in> fst ` set (load_and_analyze_data [''TempW'']
       (replicate 15 \<lparr>raw_LAT = Some (- 70), raw_LONG = Some 170, raw_Species = Some ''Adelie'',
                       raw_Counts = None, raw_covariate = (\<lambda>v. None)\<rparr>
        @ [\<lparr>raw_LAT = Some (- 71), raw_LONG = Some 171, raw_Species = Some ''Skua'',
             raw_Counts = Some 2, raw_covariate = (\<lambda>v. None)\<rparr>]))
   \<and> ''Skua'' \<notin> fst ` set (load_and_analyze_data [''TempW'']
       (replicate 15 \<lparr>raw_LAT = Some (- 70), raw_LONG = Some 170, raw_Species = Some ''Adelie'',
                       raw_Counts = None, raw_covariate = (\<lambda>v. None)\<rparr>
        @ [\<lparr>raw_LAT = Some (- 71), raw_LONG = Some 171, raw_Species = Some ''Skua'',
             raw_Counts = Some 2, raw_covariate = (\<lambda>v. None)\<rparr>]))"
proof -
  let ?a = "\<lparr>raw_LAT = Some (- 70), raw_LONG = Some 170, raw_Species = Some ''Adelie'',
             raw_Counts = None, raw_covariate = (\<lambda>v::string. None :: real option)\<rparr>"
  let ?b = "\<lparr>raw_LAT = Some (- 71), raw_LONG = Some 171, raw_Species = Some ''Skua'',
             raw_Counts = Some 2, raw_covariate = (\<lambda>v::string. None :: real option)\<rparr>"
  let ?raw = "replicate 15 ?a @ [?b]"
  have na: "species_count (dropna_subset ?raw) ''Adelie'' = 15"
    by (simp add: species_count_def dropna_subset_def List.map_filter_def)
  have nb: "species_count (dropna_subset ?raw) ''Skua'' = 1"
    by (simp add: species_count_def dropna_subset_def List.map_filter_def)
  have a: "''Adelie'' \<in> fst ` set (load_and_analyze_data [''TempW''] ?raw)
      \<longleftrightarrow> 15 \<le> species_count (dropna_subset ?raw) ''Adelie''"
    using sparse_species_and_covariates_skipped [of "''Adelie''" "[''TempW'']" ?raw] by blast
  have b: "''Skua'' \<in> fst ` set (load_and_analyze_data [''TempW''] ?raw)
      \<longleftrightarrow> 15 \<le> species_count (dropna_subset ?raw) ''Skua''"
    using sparse_species_and_covariates_skipped [of "''Skua''" "[''TempW'']" ?raw] by blast
  from a b na nb show ?thesis by simp
qed

text \<open>
  C10. When the statistics have at least two entries but neither \<open>TempW\<close> nor \<open>Detph\<close>,
  the environmental term is 1 at every cell, so no cell has the value 0.5 of the grid
  returned when there are fewer than two entries.
\<close>

theorem environmental_term_without_temp_and_depth:
  assumes "2 \<le> card (dom env_stats)"
    and "env_stats ''TempW'' = None"
    and "env_stats ''Detph'' = None"
  shows "calculate_environmental_suitability env_stats lat_mesh = map (map (\<lambda>lat. 1)) lat_mesh
    \<and> 0.5 \<notin> set (concat (calculate_environmental_suitability env_stats lat_mesh))
    \<and> (card (dom few_stats) < 2 \<longrightarrow>
         calculate_environmental_suitability few_stats lat_mesh
           = map (map (\<lambda>lat. 0.5)) lat_mesh)"
proof -
  have ones: "calculate_environmental_suitability env_stats lat_mesh
      = map (map (\<lambda>lat. 1)) lat_mesh"
    using assms by (simp add: environmental_suitability_cells covariate_score_def)
  have "0.5 \<notin> set (concat (map (map (\<lambda>lat. 1 :: real)) lat_mesh))"
    by auto
  with ones show ?thesis
    by (simp add: calculate_environmental_suitability_def)
qed

theorem environmental_term_without_temp_and_depth_witness:
  "calculate_environmental_suitability
     [''Salinity'' \<mapsto> flat_stat 34 1, ''pH'' \<mapsto> flat_stat 8 1] [[- 70, - 71], [- 72, - 73]]
   = [[1, 1], [1, 1]]"
proof -
  let ?st = "[''Salinity'' \<mapsto> flat_stat 34 1, ''pH'' \<mapsto> flat_stat 8 1]"
  let ?mesh = "[[- 70, - 71], [- 72, - 73 :: real]]"
  have h: "2 \<le> card (dom ?st)" "?st ''TempW'' = None" "?st ''Detph'' = None"
    by simp_all
  from environmental_term_without_temp_and_depth [OF h, of ?mesh Map.empty]
  have "calculate_environmental_suitability ?st ?mesh = map (map (\<lambda>lat. 1)) ?mesh"
    by (rule conjunct1)
  then show ?thesis by simp
qed

text \<open>
  C1 (as it is stated, refuted). Were every covariate that has a statistic scored and
  the scores multiplied, the term would depend on the statistics of salinity. It does not:
  with statistics for salinity and pH only it is 1, whatever the salinity mean is, and no
  choice of estimates and floors makes the product over all covariates agree with it.
\<close>

theorem environmental_term_all_covariates_counterexample:
  "calculate_environmental_suitability
      [''Salinity'' \<mapsto> flat_stat 34 1, ''pH'' \<mapsto> flat_stat 8 1] [[- 70]] = [[1]]
   \<and> calculate_environmental_suitability
      [''Salinity'' \<mapsto> flat_stat 35 1, ''pH'' \<mapsto> flat_stat 8 1] [[- 70]] = [[1]]
   \<and> \<not> (\<exists>proxy floor_width.
          (\<forall>var. 0 \<le> floor_width var)
          \<and> (\<forall>env_stats lat_mesh. 2 \<le> card (dom env_stats) \<longrightarrow>
                calculate_environmental_suitability env_stats lat_mesh
                  = map (map (all_covariates_term proxy floor_width env_stats)) lat_mesh))"
proof -
  let ?A = "[''Salinity'' \<mapsto> flat_stat 34 1, ''pH'' \<mapsto> flat_stat 8 1]"
  let ?B = "[''Salinity'' \<mapsto> flat_stat 35 1, ''pH'' \<mapsto> flat_stat 8 1]"
  have cA: "2 \<le> card (dom ?A)" by simp
  have cB: "2 \<le> card (dom ?B)" by simp
  have a: "calculate_environmental_suitability ?A [[- 70]] = [[1]]"
    unfolding salinity_ph_code by simp
  have b: "calculate_environmental_suitability ?B [[- 70]] = [[1]]"
    unfolding salinity_ph_code by simp
  have c: False
    if fl: "\<forall>var. 0 \<le> floor_width var"
      and eq: "\<forall>env_stats lat_mesh. 2 \<le> card (dom env_stats) \<longrightarrow>
                calculate_environmental_suitability env_stats lat_mesh
                  = map (map (all_covariates_term proxy floor_width env_stats)) lat_mesh"
    for proxy :: "string \<Rightarrow> real \<Rightarrow> real" and floor_width :: "string \<Rightarrow> real"
  proof -
    let ?p = "proxy ''Salinity'' (- 70)"
    let ?w = "1 + floor_width ''Salinity''"
    let ?g = "gaussian_falloff (proxy ''pH'' (- 70)) 8 (1 + floor_width ''pH'')"
    from fl have "0 \<le> floor_width ''Salinity''" by blast
    then have w: "?w \<noteq> 0" by simp
    from eq cA have "calculate_environmental_suitability ?A [[- 70]]
        = map (map (all_covariates_term proxy floor_width ?A)) [[- 70]]" by blast
    then have "all_covariates_term proxy floor_width ?A (- 70) = 1"
      unfolding a by simp
    then have "gaussian_falloff ?p 34 ?w * ?g = 1"
      unfolding salinity_ph_term .
    then have "gaussian_falloff ?p 34 ?w = 1"
      using gaussian_falloff_pos gaussian_falloff_le_one gaussian_falloff_pos
        gaussian_falloff_le_one by (rule unit_product)
    then have p34: "?p = 34" using w by (rule gaussian_falloff_one)
    from eq cB have "calculate_environmental_suitability ?B [[- 70]]
        = map (map (all_covariates_term proxy floor_width ?B)) [[- 70]]" by blast
    then have "all_covariates_term proxy floor_width ?B (- 70) = 1"
      unfolding b by simp
    then have "gaussian_falloff ?p 35 ?w * ?g = 1"
      unfolding salinity_ph_term .
    then have "gaussian_falloff ?p 35 ?w = 1"
      using gaussian_falloff_pos gaussian_falloff_le_one gaussian_falloff_pos
        gaussian_falloff_le_one by (rule unit_product)
    then have "?p = 35" using w by (rule gaussian_falloff_one)
    with p34 show False by simp
  qed
  from a b c show ?thesis by blast
qed

text \<open>
  C1 (amended). When the statistics have at least two entries, the environmental term of
  a cell is the product of the temperature score, if \<open>TempW\<close> has a statistic, and the
  depth score, if \<open>Detph\<close> has one: each a Gaussian falloff around the species' mean, at a
  value estimated from the cell's latitude, of width the species' standard deviation plus
  a floor (0.1 for temperature, 50 for depth). The other covariates do not contribute. A
  statistic of a species is the summary of the covariate's values that are not missing,
  and exists only when there are at least 6 of them.
\<close>

theorem environmental_term_temp_and_depth:
  assumes "2 \<le> card (dom env_stats)"
  shows "calculate_environmental_suitability env_stats lat_mesh =
      map (map (\<lambda>lat.
             (case env_stats ''TempW'' of
                None \<Rightarrow> 1
              | Some st \<Rightarrow> exp (- 0.5 * (((- 2.0 + (lat + 80) * 0.5) - stat_mean st)
                                          / (stat_std st + 0.1))\<^sup>2))
           * (case env_stats ''Detph'' of
                None \<Rightarrow> 1
              | Some st \<Rightarrow> exp (- 0.5 * (((200 + \<bar>lat + 77\<bar> * 100) - stat_mean st)
                                          / (stat_std st + 50))\<^sup>2)))) lat_mesh
    \<and> (calculate_environmental_stats columns species_data var = Some st \<longrightarrow>
         6 \<le> length (dropna (map (\<lambda>r. covariate r var) species_data))
         \<and> stat_mean st = series_mean (dropna (map (\<lambda>r. covariate r var) species_data))
         \<and> stat_std st = series_std (dropna (map (\<lambda>r. covariate r var) species_data)))"
proof -
  have cells: "calculate_environmental_suitability env_stats lat_mesh =
      map (map (\<lambda>lat.
             (case env_stats ''TempW'' of
                None \<Rightarrow> 1
              | Some st \<Rightarrow> exp (- 0.5 * (((- 2.0 + (lat + 80) * 0.5) - stat_mean st)
                                          / (stat_std st + 0.1))\<^sup>2))
           * (case env_stats ''Detph'' of
                None \<Rightarrow> 1
              | Some st \<Rightarrow> exp (- 0.5 * (((200 + \<bar>lat + 77\<bar> * 100) - stat_mean st)
                                          / (stat_std st + 50))\<^sup>2)))) lat_mesh"
    unfolding environmental_suitability_cells [OF assms] covariate_score_def
      gaussian_falloff_def estimated_temp_def estimated_depth_def ..
  have stats: "6 \<le> length (dropna (map (\<lambda>r. covariate r var) species_data))
      \<and> stat_mean st = series_mean (dropna (map (\<lambda>r. covariate r var) species_data))
      \<and> stat_std st = series_std (dropna (map (\<lambda>r. covariate r var) species_data))"
    if "calculate_environmental_stats columns species_data var = Some st"
    using that by (auto simp add: env_stats_lookup summarize_def split: if_splits)
  from cells stats show ?thesis by blast
qed

theorem environmental_term_temp_and_depth_witness:
  "calculate_environmental_suitability
     [''TempW'' \<mapsto> flat_stat (- 2) 1, ''Salinity'' \<mapsto> flat_stat 34 1] [[- 80]] = [[1]]"
proof -
  let ?st = "[''TempW'' \<mapsto> flat_stat (- 2) 1, ''Salinity'' \<mapsto> flat_stat 34 1]"
  have "2 \<le> card (dom ?st)" by simp
  from environmental_term_temp_and_depth [OF this, of "[[- 80]]"]
  show ?thesis by (simp add: flat_stat_def)
qed


subsection \<open>The rescaled grid\<close>























section \<open>Properties of the tabular aggregation scripts\<close>

lemma set_dropna: "set (dropna vs) = {x. Some x \<in> set vs}"
  by (induction vs) (auto simp add: dropna_def List.map_filter_simps split: option.splits)

lemma nunique_card: "nunique vs = card {x. Some x \<in> set vs}"
  by (simp add: nunique_def length_remdups_card_conv set_dropna)

lemma set_group_keys: "set (group_keys ks) = {k. Some k \<in> set ks}"
  by (simp add: group_keys_def set_dropna)

lemma finite_group_species: "finite (group_species key data g)"
proof -
  have "group_species key data g \<subseteq> (\<lambda>r. the (row_Species r)) ` set data"
    by (force simp add: group_species_def image_iff)
  then show ?thesis by (rule finite_subset) simp
qed

lemma group_species_mono:
  assumes "set smaller \<subseteq> set larger"
  shows "card (group_species key smaller g) \<le> card (group_species key larger g)"
proof (rule card_mono)
  show "finite (group_species key larger g)" by (rule finite_group_species)
  show "group_species key smaller g \<subseteq> group_species key larger g"
    using assms by (auto simp add: group_species_def)
qed

lemma richness_by_region_entries:
  "(g, n) \<in> set (species_richness_by_region data) \<longleftrightarrow>
     (\<exists>r \<in> set data. positive_count r \<and> row_Region r = Some g)
     \<and> n = card (group_species row_Region data g)"
proof -
  have "{x. Some x \<in> row_Species ` {r \<in> set data. positive_count r \<and> row_Region r = Some g}}
      = group_species row_Region data g" for g
    by (auto simp add: group_species_def image_iff)
  then show ?thesis
    by (auto simp add: species_richness_by_region_def Let_def set_group_keys nunique_card
        image_iff)
qed

lemma to_period_strict_result:
  "to_period_strict to_period dates = Inr months \<longleftrightarrow>
     (\<forall>s. Some s \<in> set dates \<longrightarrow> to_period (''2023-'' @ s) \<noteq> None)
     \<and> months = map (\<lambda>d. case d of None \<Rightarrow> None | Some s \<Rightarrow> to_period (''2023-'' @ s)) dates"
  by (auto simp add: to_period_strict_def list_ex_iff split: option.splits)

lemma to_period_strict_cases:
  "to_period_strict to_period dates = Inl ValueError
   \<or> to_period_strict to_period dates =
       Inr (map (\<lambda>d. case d of None \<Rightarrow> None | Some s \<Rightarrow> to_period (''2023-'' @ s)) dates)"
  by (simp add: to_period_strict_def)

lemma zip_map_filter_set:
  "set (filter (\<lambda>p. fst p = k) (zip (map h xs) xs)) = (\<lambda>r. (h r, r)) ` {r \<in> set xs. h r = k}"
  by (induction xs) auto

lemma richness_month_entries:
  assumes "species_richness_month to_period data = Inr table"
  shows "(g, n) \<in> set table \<longleftrightarrow>
     (\<exists>r \<in> set data. positive_count r \<and> month_of to_period r = Some g)
     \<and> n = card (group_species (month_of to_period) data g)"
proof -
  let ?f = "filter positive_count data"
  let ?months = "map (month_of to_period) ?f"
  have m: "map (\<lambda>d. case d of None \<Rightarrow> None | Some s \<Rightarrow> to_period (''2023-'' @ s))
             (map row_Date ?f) = ?months"
    by (simp add: month_of_def comp_def)
  from assms to_period_strict_cases [of to_period "map row_Date ?f"]
  have table: "table = map (\<lambda>m. (m, nunique (map (\<lambda>p. row_Species (snd p))
                                          (filter (\<lambda>p. fst p = Some m) (zip ?months ?f)))))
                    (group_keys ?months)"
    unfolding species_richness_month_def Let_def m by auto
  have "{x. Some x \<in> (\<lambda>p. row_Species (snd p)) `
            set (filter (\<lambda>p. fst p = Some g) (zip ?months ?f))}
      = group_species (month_of to_period) data g" for g
    unfolding zip_map_filter_set by (auto simp add: group_species_def image_iff)
  then show ?thesis
    unfolding table by (auto simp add: set_group_keys nunique_card image_iff)
qed

lemma richness_month_succeeds:
  "(\<exists>table. species_richness_month to_period data = Inr table) \<longleftrightarrow>
     (\<forall>r \<in> set data. positive_count r \<longrightarrow>
        (\<forall>s. row_Date r = Some s \<longrightarrow> to_period (''2023-'' @ s) \<noteq> None))"
proof -
  let ?f = "filter positive_count data"
  have "(\<exists>table. species_richness_month to_period data = Inr table)
      \<longleftrightarrow> (\<exists>months. to_period_strict to_period (map row_Date ?f) = Inr months)"
    by (auto simp add: species_richness_month_def Let_def split: sum.splits)
  also have "\<dots> \<longleftrightarrow> (\<forall>s. Some s \<in> set (map row_Date ?f) \<longrightarrow> to_period (''2023-'' @ s) \<noteq> None)"
    unfolding to_period_strict_result by blast
  also have "\<dots> \<longleftrightarrow> (\<forall>r \<in> set data. positive_count r \<longrightarrow>
        (\<forall>s. row_Date r = Some s \<longrightarrow> to_period (''2023-'' @ s) \<noteq> None))"
    by (auto simp add: image_iff) metis
  finally show ?thesis .
qed

text \<open>
  C8. Species richness is monotone. When every row of a table is also a row of a larger
  table, each region listed for the smaller table is listed for the larger one with a
  richness at least as large; and when the monthly script succeeds on the larger table
  (all its dates parse), it succeeds on the smaller one, and each month listed for the
  smaller table is listed for the larger one with a richness at least as large.
\<close>

theorem species_richness_monotone:
  assumes "set smaller \<subseteq> set larger"
  shows "((g, n) \<in> set (species_richness_by_region smaller) \<longrightarrow>
            (\<exists>m. (g, m) \<in> set (species_richness_by_region larger) \<and> n \<le> m))
    \<and> (species_richness_month to_period larger = Inr big \<longrightarrow>
         (\<exists>small. species_richness_month to_period smaller = Inr small
            \<and> (\<forall>k j. (k, j) \<in> set small \<longrightarrow> (\<exists>m. (k, m) \<in> set big \<and> j \<le> m))))"
proof -
  have region: "\<exists>m. (g, m) \<in> set (species_richness_by_region larger) \<and> n \<le> m"
    if "(g, n) \<in> set (species_richness_by_region smaller)"
  proof -
    from that have r: "\<exists>r \<in> set smaller. positive_count r \<and> row_Region r = Some g"
      and n: "n = card (group_species row_Region smaller g)"
      unfolding richness_by_region_entries by simp_all
    from r assms have "\<exists>r \<in> set larger. positive_count r \<and> row_Region r = Some g" by blast
    then have "(g, card (group_species row_Region larger g))
        \<in> set (species_richness_by_region larger)"
      unfolding richness_by_region_entries by simp
    moreover have "n \<le> card (group_species row_Region larger g)"
      unfolding n using assms by (rule group_species_mono)
    ultimately show ?thesis by blast
  qed
  have month: "\<exists>small. species_richness_month to_period smaller = Inr small
            \<and> (\<forall>k j. (k, j) \<in> set small \<longrightarrow> (\<exists>m. (k, m) \<in> set big \<and> j \<le> m))"
    if big: "species_richness_month to_period larger = Inr big"
  proof -
    from big have "\<forall>r \<in> set larger. positive_count r \<longrightarrow>
        (\<forall>s. row_Date r = Some s \<longrightarrow> to_period (''2023-'' @ s) \<noteq> None)"
      using richness_month_succeeds [of to_period larger] by blast
    with assms have "\<forall>r \<in> set smaller. positive_count r \<longrightarrow>
        (\<forall>s. row_Date r = Some s \<longrightarrow> to_period (''2023-'' @ s) \<noteq> None)"
      by blast
    then obtain small where small: "species_richness_month to_period smaller = Inr small"
      using richness_month_succeeds [of to_period smaller] by blast
    have "\<exists>m. (k, m) \<in> set big \<and> j \<le> m" if "(k, j) \<in> set small" for k j
    proof -
      from that have r: "\<exists>r \<in> set smaller. positive_count r \<and> month_of to_period r = Some k"
        and j: "j = card (group_species (month_of to_period) smaller k)"
        unfolding richness_month_entries [OF small] by simp_all
      from r assms
      have "\<exists>r \<in> set larger. positive_count r \<and> month_of to_period r = Some k" by blast
      then have "(k, card (group_species (month_of to_period) larger k)) \<in> set big"
        unfolding richness_month_entries [OF big] by simp
      moreover have "j \<le> card (group_species (month_of to_period) larger k)"
        unfolding j using assms by (rule group_species_mono)
      ultimately show ?thesis by blast
    qed
    with small show ?thesis by blast
  qed
  from region month show ?thesis by blast
qed

theorem species_richness_monotone_witness:
  "species_richness_by_region
     [\<lparr>row_Date = Some ''01-Jan'', row_Species = Some ''Adelie'', row_Region = Some ''5A'',
       row_Count = Some 2\<rparr>] = [(''5A'', 1)]
   \<and> (\<exists>m. (''5A'', m) \<in> set (species_richness_by_region
        [\<lparr>row_Date = Some ''01-Jan'', row_Species = Some ''Adelie'', row_Region = Some ''5A'',
          row_Count = Some 2\<rparr>,
         \<lparr>row_Date = Some ''02-Jan'', row_Species = Some ''Skua'', row_Region = Some ''5A'',
          row_Count = Some 1\<rparr>]) \<and> 1 \<le> m)"
proof -
  let ?a = "\<lparr>row_Date = Some ''01-Jan'', row_Species = Some ''Adelie'',
             row_Region = Some ''5A'', row_Count = Some 2\<rparr>"
  let ?b = "\<lparr>row_Date = Some ''02-Jan'', row_Species = Some ''Skua'',
             row_Region = Some ''5A'', row_Count = Some 1\<rparr>"
  have s: "species_richness_by_region [?a] = [(''5A'', 1)]"
    by (simp add: species_richness_by_region_def positive_count_def group_keys_def
        nunique_def dropna_def List.map_filter_simps)
  have "set [?a] \<subseteq> set [?a, ?b]" by simp
  from species_richness_monotone
         [where g = "''5A''" and n = 1 and to_period = "\<lambda>s. None :: nat option"
            and big = "[]", OF this] s
  have "\<exists>m. (''5A'', m) \<in> set (species_richness_by_region [?a, ?b]) \<and> 1 \<le> m" by simp
  with s show ?thesis by blast
qed


lemma sum_list_scaled:
  fixes f :: "'a \<Rightarrow> real"
  shows "sum_list (map (\<lambda>x. f x / t * 100) xs) = sum_list (map f xs) / t * 100"
  by (induction xs) (simp_all add: add_divide_distrib distrib_right)

lemma percentage_rows:
  assumes "monthly_species_percentage to_datetime data = Some out"
  shows "out = map (\<lambda>g. (fst g, fst (snd g), snd (snd g),
                        times_100 (float_div (snd (snd g))
                          (monthly_total_count (monthly_species_count to_datetime data) (fst g)))))
                 (monthly_species_count to_datetime data)"
  using assms by (simp add: monthly_species_percentage_def Let_def split: if_splits)

lemma times_100_div:
  "times_100 (float_div c t) =
     (if t \<noteq> 0 then Finite (c / t * 100)
      else if c = 0 then NaN else if 0 < c then PosInf else NegInf)"
  by (simp add: times_100_def float_div_def)

lemma filter_date_percentage:
  "filter (\<lambda>r. fst r = d) (map (\<lambda>g. (fst g, h g)) grouped)
     = map (\<lambda>g. (fst g, h g)) (filter (\<lambda>g. fst g = d) grouped)"
  by (induction grouped) simp_all

text \<open>
  C5. For every date whose total count is not zero, the percentage shares of the rows of
  that date are finite and their sum is 100 (over the reals). For the two observations
  A with count 3 and B with count 1 on the same date, the output rows have the shares 75
  and 25.
\<close>

theorem percentage_shares_sum_to_100:
  "(monthly_species_percentage to_datetime data = Some out
      \<and> monthly_total_count (monthly_species_count to_datetime data) d \<noteq> 0 \<longrightarrow>
      (\<exists>shares. map (\<lambda>r. snd (snd (snd r))) (filter (\<lambda>r. fst r = d) out) = map Finite shares
                 \<and> sum_list shares = 100))
   \<and> (to_datetime ''01-Jan-2023'' = Some jan \<longrightarrow>
         monthly_species_percentage to_datetime
           [\<lparr>row_Date = Some ''01-Jan'', row_Species = Some ''A'', row_Region = rg,
             row_Count = Some 3\<rparr>,
            \<lparr>row_Date = Some ''01-Jan'', row_Species = Some ''B'', row_Region = rh,
             row_Count = Some 1\<rparr>]
         = Some [(jan, ''A'', 3, Finite 75), (jan, ''B'', 1, Finite 25)])"
proof -
  have general: "\<exists>shares. map (\<lambda>r. snd (snd (snd r))) (filter (\<lambda>r. fst r = d) out)
                   = map Finite shares \<and> sum_list shares = 100"
    if assms: "monthly_species_percentage to_datetime data = Some out"
      "monthly_total_count (monthly_species_count to_datetime data) d \<noteq> 0"
  proof -
  let ?grouped = "monthly_species_count to_datetime data"
  let ?t = "monthly_total_count ?grouped d"
  let ?bucket = "filter (\<lambda>g. fst g = d) ?grouped"
  let ?shares = "map (\<lambda>g. snd (snd g) / ?t * 100) ?bucket"
  have "filter (\<lambda>r. fst r = d) out
      = map (\<lambda>g. (fst g, fst (snd g), snd (snd g),
                   times_100 (float_div (snd (snd g)) (monthly_total_count ?grouped (fst g)))))
          ?bucket"
    unfolding percentage_rows [OF assms(1)] by (rule filter_date_percentage)
  then have "map (\<lambda>r. snd (snd (snd r))) (filter (\<lambda>r. fst r = d) out)
      = map (\<lambda>g. times_100 (float_div (snd (snd g)) (monthly_total_count ?grouped (fst g))))
          ?bucket"
    by (simp add: comp_def)
  also have "\<dots> = map (\<lambda>g. Finite (snd (snd g) / ?t * 100)) ?bucket"
    using assms(2) by (auto simp add: times_100_div)
  also have "\<dots> = map Finite ?shares"
    by (simp add: comp_def)
  finally have shares: "map (\<lambda>r. snd (snd (snd r))) (filter (\<lambda>r. fst r = d) out)
      = map Finite ?shares" .
  have "sum_list ?shares = sum_list (map (\<lambda>g. snd (snd g)) ?bucket) / ?t * 100"
    by (rule sum_list_scaled)
  also have "\<dots> = ?t / ?t * 100"
    by (simp add: monthly_total_count_def)
  also have "\<dots> = 100"
    using assms(2) by simp
  finally have total: "sum_list ?shares = 100" .
  from shares total show ?thesis by blast
  qed
  have example: "monthly_species_percentage to_datetime
           [\<lparr>row_Date = Some ''01-Jan'', row_Species = Some ''A'', row_Region = rg,
             row_Count = Some 3\<rparr>,
            \<lparr>row_Date = Some ''01-Jan'', row_Species = Some ''B'', row_Region = rh,
             row_Count = Some 1\<rparr>]
         = Some [(jan, ''A'', 3, Finite 75), (jan, ''B'', 1, Finite 25)]"
    if "to_datetime ''01-Jan-2023'' = Some jan"
    using that
    by (simp add: monthly_species_percentage_def monthly_species_count_def dated_rows_def
        monthly_total_count_def List.map_filter_simps dropna_def times_100_div Let_def)
  from general example show ?thesis by blast
qed

theorem percentage_shares_sum_to_100_witness:
  "monthly_species_percentage (\<lambda>s. if s = ''01-Jan-2023'' then Some (1 :: nat) else None)
     [\<lparr>row_Date = Some ''01-Jan'', row_Species = Some ''A'', row_Region = None,
       row_Count = Some 3\<rparr>,
      \<lparr>row_Date = Some ''01-Jan'', row_Species = Some ''B'', row_Region = None,
       row_Count = Some 1\<rparr>]
     = Some [(1, ''A'', 3, Finite 75), (1, ''B'', 1, Finite 25)]
   \<and> (\<exists>shares. map (\<lambda>r. snd (snd (snd r)))
                   (filter (\<lambda>r. fst r = 1)
                      [(1 :: nat, ''A'', 3 :: real, Finite 75), (1, ''B'', 1, Finite 25)])
                 = map Finite shares
               \<and> sum_list shares = 100)"
proof -
  let ?td = "\<lambda>s. if s = ''01-Jan-2023'' then Some (1 :: nat) else None"
  let ?data = "[\<lparr>row_Date = Some ''01-Jan'', row_Species = Some ''A'', row_Region = None,
                 row_Count = Some 3\<rparr>,
                \<lparr>row_Date = Some ''01-Jan'', row_Species = Some ''B'', row_Region = None,
                 row_Count = Some 1\<rparr>]"
  let ?out = "[(1 :: nat, ''A'', 3 :: real, Finite 75), (1, ''B'', 1, Finite 25)]"
  note t = percentage_shares_sum_to_100
             [where to_datetime = ?td and data = ?data and out = ?out and d = 1 and jan = 1
                and rg = None and rh = None]
  have p: "?td ''01-Jan-2023'' = Some 1" by simp
  from t p have out: "monthly_species_percentage ?td ?data = Some ?out" by blast
  have "monthly_species_count ?td ?data = [(1, ''A'', 3), (1, ''B'', 1)]"
    by (simp add: monthly_species_count_def dated_rows_def List.map_filter_simps dropna_def)
  then have total: "monthly_total_count (monthly_species_count ?td ?data) 1 \<noteq> 0"
    by (simp add: monthly_total_count_def)
  from t out total
  have "\<exists>shares. map (\<lambda>r. snd (snd (snd r))) (filter (\<lambda>r. fst r = 1) ?out) = map Finite shares
                 \<and> sum_list shares = 100"
    by blast
  with out show ?thesis by blast
qed

text \<open>
  C4 (as it is stated, refuted). A date whose only row has the count 0 has the total 0;
  its row is output, with \<open>NaN\<close> as share. The same holds in the region rate script for
  a date whose only richness is 0.
\<close>

theorem zero_total_bucket_counterexample:
  "monthly_species_percentage (\<lambda>s. if s = ''01-Jan-2023'' then Some (1 :: nat) else None)
     [\<lparr>row_Date = Some ''01-Jan'', row_Species = Some ''A'', row_Region = None,
       row_Count = Some 0\<rparr>]
     = Some [(1, ''A'', 0, NaN)]
   \<and> region_rate
       [\<lparr>rm_Region = Some ''5A'', rm_Date = Some ''2023-01'', rm_Species_Richness = Some 0\<rparr>]
     = [(Some ''5A'', Some ''2023-01'', NaN)]"
  by (simp add: monthly_species_percentage_def monthly_species_count_def dated_rows_def
      monthly_total_count_def List.map_filter_simps dropna_def times_100_div Let_def
      region_rate_def float_div_def times_100_def)

text \<open>
  C4 (amended). The division by the total of the bucket is not guarded. Every group of
  the grouped table gets an output row, whatever the total of its date: the share is
  count / total * 100 when the total is not zero, and otherwise \<open>NaN\<close> when the count is
  0 and plus or minus infinity when the count is positive or negative. Nothing is written
  only when the grouped table as a whole is empty. The region rate script gives one output
  row for every input row.
\<close>

theorem percentage_division_unguarded:
  "(monthly_species_percentage to_datetime data = Some out \<longrightarrow>
      map (\<lambda>r. (fst r, fst (snd r), fst (snd (snd r)))) out
        = monthly_species_count to_datetime data
      \<and> (\<forall>r \<in> set out.
           snd (snd (snd r)) =
             (let c = fst (snd (snd r));
                  t = monthly_total_count (monthly_species_count to_datetime data) (fst r)
              in if t \<noteq> 0 then Finite (c / t * 100)
                 else if c = 0 then NaN else if 0 < c then PosInf else NegInf)))
   \<and> (monthly_species_percentage to_datetime data = None
        \<longleftrightarrow> monthly_species_count to_datetime data = [])
   \<and> map (\<lambda>r. (fst r, fst (snd r))) (region_rate table)
        = map (\<lambda>r. (rm_Region r, rm_Date r)) table"
proof -
  let ?grouped = "monthly_species_count to_datetime data"
  have rows: "map (\<lambda>r. (fst r, fst (snd r), fst (snd (snd r)))) out = ?grouped
      \<and> (\<forall>r \<in> set out.
           snd (snd (snd r)) =
             (let c = fst (snd (snd r));
                  t = monthly_total_count ?grouped (fst r)
              in if t \<noteq> 0 then Finite (c / t * 100)
                 else if c = 0 then NaN else if 0 < c then PosInf else NegInf))"
    if "monthly_species_percentage to_datetime data = Some out"
    unfolding percentage_rows [OF that]
    by (auto simp add: comp_def times_100_div Let_def)
  have none: "monthly_species_percentage to_datetime data = None \<longleftrightarrow> ?grouped = []"
    by (simp add: monthly_species_percentage_def Let_def)
  have rate: "map (\<lambda>r. (fst r, fst (snd r))) (region_rate table)
      = map (\<lambda>r. (rm_Region r, rm_Date r)) table"
    by (simp add: region_rate_def comp_def)
  from rows none rate show ?thesis by blast
qed

theorem percentage_division_unguarded_witness:
  "monthly_species_percentage (\<lambda>s. if s = ''01-Jan-2023'' then Some (1 :: nat) else None)
     [\<lparr>row_Date = Some ''01-Jan'', row_Species = Some ''A'', row_Region = None,
       row_Count = Some 0\<rparr>,
      \<lparr>row_Date = Some ''01-Jan'', row_Species = Some ''B'', row_Region = None,
       row_Count = Some 0\<rparr>]
     = Some [(1, ''A'', 0, NaN), (1, ''B'', 0, NaN)]
   \<and> map (\<lambda>r. (fst r, fst (snd r), fst (snd (snd r))))
        [(1 :: nat, ''A'', 0 :: real, NaN), (1, ''B'', 0, NaN)]
     = monthly_species_count (\<lambda>s. if s = ''01-Jan-2023'' then Some (1 :: nat) else None)
         [\<lparr>row_Date = Some ''01-Jan'', row_Species = Some ''A'', row_Region = None,
           row_Count = Some 0\<rparr>,
          \<lparr>row_Date = Some ''01-Jan'', row_Species = Some ''B'', row_Region = None,
           row_Count = Some 0\<rparr>]"
proof -
  let ?td = "\<lambda>s. if s = ''01-Jan-2023'' then Some (1 :: nat) else None"
  let ?data = "[\<lparr>row_Date = Some ''01-Jan'', row_Species = Some ''A'', row_Region = None,
                 row_Count = Some 0\<rparr>,
                \<lparr>row_Date = Some ''01-Jan'', row_Species = Some ''B'', row_Region = None,
                 row_Count = Some 0\<rparr>]"
  let ?out = "[(1 :: nat, ''A'', 0 :: real, NaN), (1, ''B'', 0, NaN)]"
  have out: "monthly_species_percentage ?td ?data = Some ?out"
    by (simp add: monthly_species_percentage_def monthly_species_count_def dated_rows_def
        monthly_total_count_def List.map_filter_simps dropna_def times_100_div Let_def)
  from percentage_division_unguarded
         [where to_datetime = ?td and data = ?data and out = ?out and table = "[]"] out
  have "map (\<lambda>r. (fst r, fst (snd r), fst (snd (snd r)))) ?out
      = monthly_species_count ?td ?data"
    by blast
  with out show ?thesis by blast
qed


lemma shannon_term_negative:
  fixes p :: real
  assumes "0 < p" "p < 1"
  shows "p * ln p < 0"
proof -
  from assms have "ln p < 0" by simp
  with assms(1) show ?thesis by (rule mult_pos_neg)
qed

lemma sum_list_negative:
  fixes xs :: "real list"
  assumes "xs \<noteq> []" and "\<forall>x \<in> set xs. x < 0"
  shows "sum_list xs < 0"
  using assms
proof (induction xs)
  case Nil
  then show ?case by simp
next
  case (Cons x xs)
  show ?case
  proof (cases "xs = []")
    case True
    with Cons.prems show ?thesis by simp
  next
    case False
    with Cons have "sum_list xs < 0" by simp
    moreover from Cons.prems have "x < 0" by simp
    ultimately show ?thesis by simp
  qed
qed

lemma sum_list_strict_part:
  fixes cs :: "real list"
  assumes "\<forall>c \<in> set cs. 0 < c" and "2 \<le> length cs" and "c \<in> set cs"
  shows "c < sum_list cs"
  using assms
proof (induction cs)
  case Nil
  then show ?case by simp
next
  case (Cons a as)
  from Cons.prems(2) have ne: "as \<noteq> []" by auto
  from Cons.prems(1) have pos: "\<forall>x \<in> set as. 0 < x" and a: "0 < a" by simp_all
  have tail: "0 < sum_list as"
    using ne pos by (induction as) (auto intro: add_pos_nonneg sum_list_nonneg less_imp_le)
  have part: "x \<le> sum_list as" if "x \<in> set as" for x
    using that pos by (simp add: less_imp_le member_le_sum_list)
  from Cons.prems(3) have "c = a \<or> c \<in> set as" by simp
  then show ?case
  proof
    assume "c = a"
    with tail show ?thesis by simp
  next
    assume "c \<in> set as"
    then have "c \<le> sum_list as" by (rule part)
    with a show ?thesis by simp
  qed
qed

lemma shannon_positive_for_two_rows:
  assumes pos: "\<forall>c \<in> set counts. 0 < c" and two: "2 \<le> length counts"
  shows "0 < calculate_shannon_diversity counts"
proof -
  let ?t = "sum_list counts"
  from two have ne: "counts \<noteq> []" by auto
  then obtain c0 where "c0 \<in> set counts" by (cases counts) auto
  with pos two have t: "0 < ?t"
    using sum_list_strict_part [of counts c0] by fastforce
  have "\<forall>x \<in> set (map (\<lambda>p. p * ln p) (map (\<lambda>c. c / ?t) counts)). x < 0"
  proof
    fix x assume "x \<in> set (map (\<lambda>p. p * ln p) (map (\<lambda>c. c / ?t) counts))"
    then obtain c where c: "c \<in> set counts" and x: "x = (c / ?t) * ln (c / ?t)" by auto
    from c pos have "0 < c" by blast
    moreover from pos two c have "c < ?t" by (rule sum_list_strict_part)
    ultimately have "0 < c / ?t" "c / ?t < 1" using t by simp_all
    then show "x < 0" unfolding x by (rule shannon_term_negative)
  qed
  moreover from ne have "map (\<lambda>p. p * ln p) (map (\<lambda>c. c / ?t) counts) \<noteq> []" by simp
  ultimately have "sum_list (map (\<lambda>p. p * ln p) (map (\<lambda>c. c / ?t) counts)) < 0"
    by (rule sum_list_negative [rotated])
  then show ?thesis by (simp add: calculate_shannon_diversity_def Let_def)
qed

lemma shannon_zero_for_one_row:
  assumes "c \<noteq> 0"
  shows "calculate_shannon_diversity [c] = 0"
  using assms by (simp add: calculate_shannon_diversity_def)

text \<open>
  C6. A month whose rows are two sightings of the same species, with the counts 3 and 1,
  holds exactly one species. The script takes the proportions of the rows, not of the
  species, so its index for that month is the entropy of the shares 3/4 and 1/4, which is
  positive, while the index over the species of the month is 0.
\<close>

theorem shannon_index_one_species_two_rows:
  "shannon_diversity_month
     (\<lambda>s. if s = ''2023-01-Jan'' \<or> s = ''2023-05-Jan'' then Some (1 :: nat) else None)
     [\<lparr>row_Date = Some ''01-Jan'', row_Species = Some ''A'', row_Region = Some ''5A'',
       row_Count = Some 3\<rparr>,
      \<lparr>row_Date = Some ''05-Jan'', row_Species = Some ''A'', row_Region = Some ''5A'',
       row_Count = Some 1\<rparr>]
     = Inr [(1, - (3 / 4 * ln (3 / 4) + 1 / 4 * ln (1 / 4)))]
   \<and> 0 < - (3 / 4 * ln (3 / 4) + 1 / 4 * ln (1 / 4 :: real))
   \<and> shannon_over_species [(''A'', 3), (''A'', 1)] = 0"
proof -
  have run: "shannon_diversity_month
     (\<lambda>s. if s = ''2023-01-Jan'' \<or> s = ''2023-05-Jan'' then Some (1 :: nat) else None)
     [\<lparr>row_Date = Some ''01-Jan'', row_Species = Some ''A'', row_Region = Some ''5A'',
       row_Count = Some 3\<rparr>,
      \<lparr>row_Date = Some ''05-Jan'', row_Species = Some ''A'', row_Region = Some ''5A'',
       row_Count = Some 1\<rparr>]
     = Inr [(1, - (3 / 4 * ln (3 / 4) + 1 / 4 * ln (1 / 4)))]"
    by (simp add: shannon_diversity_month_def positive_count_def to_period_strict_def
        group_keys_def dropna_def List.map_filter_simps calculate_shannon_diversity_def)
  have "(3 / 4 :: real) * ln (3 / 4) < 0" and "(1 / 4 :: real) * ln (1 / 4) < 0"
    by (rule shannon_term_negative; simp)+
  then have "3 / 4 * ln (3 / 4) + 1 / 4 * ln (1 / 4 :: real) < 0" by (rule add_neg_neg)
  then have pos: "0 < - (3 / 4 * ln (3 / 4) + 1 / 4 * ln (1 / 4 :: real))"
    by (simp only: neg_0_less_iff_less)
  have species: "shannon_over_species [(''A'', 3), (''A'', 1)] = 0"
    by (simp add: shannon_over_species_def species_totals_def calculate_shannon_diversity_def)
  from run pos species show ?thesis by blast
qed

section \<open>Properties of the raster writer and reader\<close>

declare show_nat.simps [simp del]

lemma digit_cases:
  assumes "d < (10 :: nat)"
  shows "d = 0 \<or> d = 1 \<or> d = 2 \<or> d = 3 \<or> d = 4 \<or> d = 5 \<or> d = 6 \<or> d = 7 \<or> d = 8 \<or> d = 9"
  using assms by arith

lemma digit_char_value:
  assumes "d < 10"
  shows "digit_value (digit_char d) = d"
  using digit_cases [OF assms]
  by (elim disjE) (simp_all add: digit_value_def digit_char_def)

lemma isdecimal_digit_char:
  assumes "d < 10"
  shows "isdecimal (digit_char d)"
  using digit_cases [OF assms]
  by (elim disjE) (simp_all add: isdecimal_def digit_char_def)


lemma int_of_digits_snoc:
  "int_of_digits (s @ [c]) = 10 * int_of_digits s + int (digit_value c)"
  by (simp add: int_of_digits_def)

lemma show_nat_digits: "list_all isdecimal (show_nat n)"
proof (induction n rule: show_nat.induct)
  case (1 n)
  show ?case
  proof (cases "n < 10")
    case True
    then show ?thesis by (simp add: show_nat.simps [of n] isdecimal_digit_char)
  next
    case False
    with 1 have "list_all isdecimal (show_nat (n div 10))" by simp
    moreover have "isdecimal (digit_char (n mod 10))" by (rule isdecimal_digit_char) simp
    ultimately show ?thesis using False by (simp add: show_nat.simps [of n])
  qed
qed

lemma show_nat_nonempty: "show_nat n \<noteq> []"
  by (simp add: show_nat.simps [of n])

lemma show_nat_value: "int_of_digits (show_nat n) = int n"
proof (induction n rule: show_nat.induct)
  case (1 n)
  show ?case
  proof (cases "n < 10")
    case True
    then show ?thesis
      by (simp add: show_nat.simps [of n] int_of_digits_def digit_char_value)
  next
    case False
    with 1 have ih: "int_of_digits (show_nat (n div 10)) = int (n div 10)" by simp
    have d: "digit_value (digit_char (n mod 10)) = n mod 10"
      by (rule digit_char_value) simp
    have "int n = 10 * int (n div 10) + int (n mod 10)"
      by presburger
    with False ih d show ?thesis
      by (simp add: show_nat.simps [of n] int_of_digits_snoc)
  qed
qed


lemma show_nat_length:
  assumes "n < 10 ^ k" and "0 < k"
  shows "length (show_nat n) \<le> k"
  using assms
proof (induction n arbitrary: k rule: show_nat.induct)
  case (1 n)
  show ?case
  proof (cases "n < 10")
    case True
    with 1(3) show ?thesis by (simp add: show_nat.simps [of n] Suc_leI)
  next
    case False
    from 1(3) obtain j where k: "k = Suc j" by (cases k) auto
    from False 1(2) k have j: "0 < j" by (cases j) auto
    from 1(2) k have "n < 10 * 10 ^ j" by simp
    then have "n div 10 < 10 ^ j" by (simp add: less_mult_imp_div_less mult.commute)
    with 1(1) [OF False _ j] have "length (show_nat (n div 10)) \<le> j" by simp
    with False k show ?thesis by (simp add: show_nat.simps [of n])
  qed
qed

lemma int_of_digits_leading_zeros:
  "int_of_digits (replicate j CHR ''0'' @ s) = int_of_digits s"
proof -
  have "foldl (\<lambda>n c. 10 * n + digit_value c) 0 (replicate j CHR ''0'') = 0"
    by (induction j) (simp_all add: digit_value_def)
  then show ?thesis by (simp add: int_of_digits_def)
qed

lemma zero_pad_digits:
  assumes "list_all isdecimal s"
  shows "list_all isdecimal (zero_pad k s)"
proof -
  have "isdecimal CHR ''0''" by (simp add: isdecimal_def)
  then have "list_all isdecimal (replicate (k - length s) CHR ''0'')"
    by (simp add: list_all_iff)
  with assms show ?thesis by (simp add: zero_pad_def)
qed

lemma zero_pad_length:
  assumes "length s \<le> k"
  shows "length (zero_pad k s) = k"
  using assms by (simp add: zero_pad_def)

lemma zero_pad_value: "int_of_digits (zero_pad k s) = int_of_digits s"
  by (simp add: zero_pad_def int_of_digits_leading_zeros)


lemma py_float_unsigned_decimal:
  assumes "list_all isdecimal ip" and "ip \<noteq> []" and "list_all isdecimal fp"
  shows "py_float_unsigned (ip @ ''.'' @ fp)
    = Some (of_int (int_of_digits ip) + of_int (int_of_digits fp) / 10 ^ length fp)"
proof -
  have dot: "\<not> isdecimal CHR ''.''" by (simp add: isdecimal_def)
  from assms(1) have all: "\<And>c. c \<in> set ip \<Longrightarrow> isdecimal c" by (simp add: list_all_iff)
  have t: "takeWhile isdecimal (ip @ CHR ''.'' # fp) = ip"
    using all dot by (simp add: takeWhile_append2)
  have d: "dropWhile isdecimal (ip @ CHR ''.'' # fp) = CHR ''.'' # fp"
    using all dot by (simp add: dropWhile_append2)
  from t d assms(2,3) show ?thesis
    by (simp add: py_float_unsigned_def)
qed

lemma round_half_even_nonneg:
  assumes "0 \<le> y"
  shows "0 \<le> round_half_even y"
proof -
  from assms have "0 \<le> \<lfloor>y\<rfloor>" by simp
  then show ?thesis by (simp add: round_half_even_def Let_def)
qed

lemma round_half_even_close: "\<bar>of_int (round_half_even y) - y\<bar> \<le> 1 / 2"
proof -
  have "of_int \<lfloor>y\<rfloor> \<le> y" "y < of_int \<lfloor>y\<rfloor> + 1" by linarith+
  then show ?thesis
    by (auto simp add: round_half_even_def Let_def abs_le_iff)
qed

lemma div_mod_fraction:
  fixes n d :: nat
  assumes "0 < d"
  shows "real (n div d) + real (n mod d) / real d = real n / real d"
proof -
  have "real n = real (n div d) * real d + real (n mod d)"
    by (metis div_mult_mod_eq of_nat_add of_nat_mult)
  with assms show ?thesis by (simp add: field_simps)
qed

lemma py_float_format_fixed:
  assumes "0 < k"
  shows "py_float (format_fixed k x) = Some (round_to k x)"
proof -
  define n where "n = nat (round_half_even (\<bar>x\<bar> * 10 ^ k))"
  define ip where "ip = show_nat (n div 10 ^ k)"
  define fp where "fp = zero_pad k (show_nat (n mod 10 ^ k))"
  have ipd: "list_all isdecimal ip" and ipn: "ip \<noteq> []"
    unfolding ip_def by (rule show_nat_digits, rule show_nat_nonempty)
  have fpd: "list_all isdecimal fp"
    unfolding fp_def by (rule zero_pad_digits) (rule show_nat_digits)
  have "length (show_nat (n mod 10 ^ k)) \<le> k"
    using assms by (intro show_nat_length) simp_all
  then have fpl: "length fp = k" unfolding fp_def by (rule zero_pad_length)
  have r: "of_int (round_half_even (\<bar>x\<bar> * 10 ^ k)) = real n"
    unfolding n_def using round_half_even_nonneg [of "\<bar>x\<bar> * 10 ^ k"] by simp
  have "real_of_int (int_of_digits ip) + real_of_int (int_of_digits fp) / 10 ^ length fp
      = real (n div 10 ^ k) + real (n mod 10 ^ k) / real (10 ^ k)"
    by (simp add: ip_def fp_def fpl [unfolded fp_def] show_nat_value zero_pad_value)
  also have "\<dots> = real n / real (10 ^ k)"
    by (rule div_mod_fraction) simp
  finally have v: "py_float_unsigned (ip @ ''.'' @ fp) = Some (real n / 10 ^ k)"
    using py_float_unsigned_decimal [OF ipd ipn fpd] by simp
  have f: "format_fixed k x = (if x < 0 then ''-'' else []) @ ip @ ''.'' @ fp"
    by (simp add: format_fixed_def Let_def n_def ip_def fp_def)
  have rt: "round_to k x = (if x < 0 then - 1 else 1) * real n / 10 ^ k"
    by (simp only: round_to_def r)
  show ?thesis
  proof (cases "x < 0")
    case True
    with f v show ?thesis
      by (simp add: py_float_def rt)
  next
    case False
    from ipn obtain c cs where ip: "ip = c # cs" by (cases ip) auto
    with ipd have "isdecimal c" by simp
    then have c: "c \<noteq> CHR ''-''" "c \<noteq> CHR ''+''" by (auto simp add: isdecimal_def)
    from False f have "format_fixed k x = c # (cs @ ''.'' @ fp)" by (simp add: ip)
    with c have "py_float (format_fixed k x) = py_float_unsigned (ip @ ''.'' @ fp)"
      by (simp add: py_float_def ip)
    with v False show ?thesis by (simp add: rt)
  qed
qed


lemma digit_not_space:
  assumes "isdecimal c"
  shows "\<not> isspace c"
  using assms by (auto simp add: isdecimal_def isspace_def)

lemma digits_no_space:
  assumes "list_all isdecimal s"
  shows "list_all (\<lambda>c. \<not> isspace c) s"
  using assms by (simp add: list_all_iff digit_not_space)

lemma token_show_nat: "token (show_nat n)"
  by (simp add: token_def show_nat_nonempty digits_no_space show_nat_digits)

lemma token_format_fixed: "token (format_fixed k x)"
proof -
  have "list_all (\<lambda>c. \<not> isspace c) ''-''" "list_all (\<lambda>c. \<not> isspace c) ''.''"
    by (simp_all add: isspace_def)
  moreover have "list_all (\<lambda>c. \<not> isspace c) (show_nat m)" for m
    by (rule digits_no_space) (rule show_nat_digits)
  moreover have "list_all (\<lambda>c. \<not> isspace c) (zero_pad k (show_nat m))" for m
    by (rule digits_no_space) (rule zero_pad_digits, rule show_nat_digits)
  ultimately show ?thesis
    by (simp add: token_def format_fixed_def Let_def show_nat_nonempty)
qed

lemma token_format_cell: "token (format_cell val)"
proof (cases "val = - 9999")
  case True
  then show ?thesis by (simp add: format_cell_def token_def isspace_def)
next
  case False
  then show ?thesis by (simp add: format_cell_def token_format_fixed)
qed

lemma split_from_token:
  assumes "list_all (\<lambda>c. \<not> isspace c) t"
  shows "split_from (t @ rest) cur = split_from rest (cur @ t)"
  using assms by (induction t arbitrary: cur) simp_all

lemma split_join:
  assumes "list_all token ts"
  shows "split (join_with_space ts) = ts"
  using assms
proof (induction ts rule: join_with_space.induct)
  case 1
  show ?case by (simp add: split_def)
next
  case (2 t)
  then have "list_all (\<lambda>c. \<not> isspace c) t" and "t \<noteq> []" by (simp_all add: token_def)
  with split_from_token [of t "[]" "[]"] show ?case by (simp add: split_def)
next
  case (3 t u us)
  then have t: "list_all (\<lambda>c. \<not> isspace c) t" "t \<noteq> []" by (simp_all add: token_def)
  from 3 have ih: "split_from (join_with_space (u # us)) [] = u # us"
    by (simp add: split_def)
  have sp: "isspace CHR '' ''" by (simp add: isspace_def)
  have "split_from (t @ CHR '' '' # join_with_space (u # us)) []
      = split_from (CHR '' '' # join_with_space (u # us)) t"
    using split_from_token [OF t(1), of "CHR '' '' # join_with_space (u # us)" "[]"] by simp
  also have "\<dots> = t # split_from (join_with_space (u # us)) []"
    using sp t(2) by simp
  finally show ?case by (simp add: split_def ih)
qed

lemma join_ends:
  assumes "list_all token ts" and "ts \<noteq> []"
  shows "join_with_space ts \<noteq> [] \<and> hd (join_with_space ts) = hd (hd ts)
    \<and> last (join_with_space ts) = last (last ts)"
  using assms
proof (induction ts rule: join_with_space.induct)
  case 1
  then show ?case by simp
next
  case (2 t)
  then show ?case by (simp add: token_def)
next
  case (3 t u us)
  then have "t \<noteq> []" by (simp add: token_def)
  moreover from 3 have "join_with_space (u # us) \<noteq> []"
    and "last (join_with_space (u # us)) = last (last (u # us))" by simp_all
  ultimately show ?case by simp
qed

lemma strip_unchanged:
  assumes "s \<noteq> []" and "\<not> isspace (hd s)" and "\<not> isspace (last s)"
  shows "strip s = s"
proof -
  from assms(1,2) have a: "dropWhile isspace s = s" by (cases s) simp_all
  from assms(1,3) have "dropWhile isspace (rev s) = rev s"
    by (cases "rev s") (simp_all add: hd_rev [symmetric])
  with a show ?thesis by (simp add: strip_def)
qed

lemma token_ends:
  assumes "token t"
  shows "\<not> isspace (hd t)" and "\<not> isspace (last t)"
  using assms by (simp_all add: token_def list_all_iff)

lemma strip_join:
  assumes "list_all token ts" and "ts \<noteq> []"
  shows "strip (join_with_space ts) = join_with_space ts"
proof -
  from assms have "token (hd ts)" "token (last ts)" by (simp_all add: list_all_iff)
  then have "\<not> isspace (hd (hd ts))" "\<not> isspace (last (last ts))"
    by (simp_all add: token_ends)
  with join_ends [OF assms] show ?thesis by (intro strip_unchanged) simp_all
qed


lemma py_float_sentinel: "py_float ''-9999'' = Some (- 9999)"
  by (simp add: py_float_def py_float_unsigned_def isdecimal_def int_of_digits_def
      digit_value_def)

lemma py_int_sentinel: "py_int ''-9999'' = Some (- 9999)"
  by (simp add: py_int_def py_int_unsigned_def isdecimal_def int_of_digits_def digit_value_def)

lemma py_float_format_cell: "py_float (format_cell val) = Some (written_value val)"
  by (simp add: format_cell_def written_value_def py_float_sentinel py_float_format_fixed)

lemma parse_all_cells: "parse_all (map format_cell row) = Inr (map written_value row)"
  by (induction row) (simp_all add: py_float_format_cell)

lemma read_rows_written:
  assumes "\<forall>row \<in> set data. row \<noteq> []"
  shows "read_rows (map (\<lambda>row. join_with_space (map format_cell row)) data)
    = Inr (map (map written_value) data)"
  using assms
proof (induction data)
  case Nil
  show ?case by simp
next
  case (Cons row data)
  let ?toks = "map format_cell row"
  have toks: "list_all token ?toks" by (simp add: list_all_iff token_format_cell)
  from Cons.prems have ne: "?toks \<noteq> []" by simp
  have s: "strip (join_with_space ?toks) = join_with_space ?toks"
    using toks ne by (rule strip_join)
  have n: "join_with_space ?toks \<noteq> []"
    using join_ends [OF toks ne] by simp
  have sp: "split (join_with_space ?toks) = ?toks"
    using toks by (rule split_join)
  from Cons have ih: "read_rows (map (\<lambda>row. join_with_space (map format_cell row)) data)
      = Inr (map (map written_value) data)" by simp
  show ?case
    by (simp add: s n sp parse_all_cells ih Let_def)
qed

lemma header_step:
  assumes "token key" and "token tok" and "parse_header_value tok = Some v"
  shows "read_header ((key @ '' '' @ tok) # ls) header = read_header ls (header(lower key \<mapsto> v))"
proof -
  have toks: "list_all token [key, tok]" using assms(1,2) by simp
  have s: "strip (key @ CHR '' '' # tok) = key @ CHR '' '' # tok"
    using strip_join [OF toks] by simp
  have sp: "split (key @ CHR '' '' # tok) = [key, tok]"
    using split_join [OF toks] by simp
  show ?thesis
    by (simp add: s sp assms(3) Let_def)
qed

lemma parse_header_nat: "parse_header_value (show_nat n) = Some (real n)"
proof -
  have "\<not> isdecimal CHR ''.''" by (simp add: isdecimal_def)
  with show_nat_digits [of n] have nodot: "CHR ''.'' \<notin> set (show_nat n)"
    by (auto simp add: list_all_iff)
  obtain c cs where cs: "show_nat n = c # cs"
    using show_nat_nonempty [of n] by (cases "show_nat n") auto
  with show_nat_digits [of n] have "isdecimal c" by simp
  then have c: "c \<noteq> CHR ''-''" "c \<noteq> CHR ''+''" by (auto simp add: isdecimal_def)
  have "py_int_unsigned (show_nat n) = Some (real n)"
    by (simp add: py_int_unsigned_def show_nat_nonempty show_nat_digits show_nat_value)
  with c cs have "py_int (show_nat n) = Some (real n)"
    by (simp add: py_int_def)
  with nodot show ?thesis by (simp add: parse_header_value_def)
qed

lemma parse_header_fixed:
  assumes "0 < k"
  shows "parse_header_value (format_fixed k x) = Some (round_to k x)"
proof -
  have "CHR ''.'' \<in> set (format_fixed k x)" by (simp add: format_fixed_def Let_def)
  with py_float_format_fixed [OF assms] show ?thesis by (simp add: parse_header_value_def)
qed

lemma parse_header_sentinel: "parse_header_value ''-9999'' = Some (- 9999)"
  by (simp add: parse_header_value_def py_int_sentinel)


lemma lower_keys:
  "lower ''ncols'' = ''ncols''" "lower ''nrows'' = ''nrows''"
  "lower ''xllcorner'' = ''xllcorner''" "lower ''yllcorner'' = ''yllcorner''"
  "lower ''cellsize'' = ''cellsize''" "lower ''NODATA_value'' = ''nodata_value''"
  by (simp_all add: lower_def lower_char_def)

lemma token_keys:
  "token ''ncols''" "token ''nrows''" "token ''xllcorner''" "token ''yllcorner''"
  "token ''cellsize''" "token ''NODATA_value''" "token ''-9999''"
  by (simp_all add: token_def isspace_def)

lemma round_to_sentinel: "round_to 4 (- 9999) = - 9999"
  by (simp add: round_to_def round_half_even_def)

lemma read_back_cell:
  "(if written_value (mask_missing c) = - 9999 then NaN
    else Finite (written_value (mask_missing c))) = read_back c"
  by (cases c) (simp_all add: written_value_def mask_missing_def read_back_def round_to_sentinel)

lemma rectangular_iff:
  "rectangular rows \<longleftrightarrow> (\<forall>r \<in> set rows. \<forall>q \<in> set rows. length r = length q)"
  by (cases rows) (auto simp add: rectangular_def list_all_iff)

lemma north_to_south_map:
  "north_to_south lats (map f data)
     = (fst (north_to_south lats data), map f (snd (north_to_south lats data)))"
  by (simp add: north_to_south_def rev_map)

lemma north_to_south_rows: "set (snd (north_to_south lats data)) = set data"
  by (simp add: north_to_south_def)

lemma north_to_south_lats: "fst (north_to_south lats data) = [] \<longleftrightarrow> lats = []"
  by (simp add: north_to_south_def)


lemma read_header_written:
  "read_header
     [''ncols '' @ show_nat ncols, ''nrows '' @ show_nat nrows,
      ''xllcorner '' @ format_fixed 6 x, ''yllcorner '' @ format_fixed 6 y,
      ''cellsize '' @ format_fixed 6 cs, ''NODATA_value -9999''] Map.empty
   = Inr [''ncols'' \<mapsto> real ncols, ''nrows'' \<mapsto> real nrows,
          ''xllcorner'' \<mapsto> round_to 6 x, ''yllcorner'' \<mapsto> round_to 6 y,
          ''cellsize'' \<mapsto> round_to 6 cs, ''nodata_value'' \<mapsto> - 9999]"
proof -
  have six: "0 < (6 :: nat)" by simp
  have e: "''ncols '' @ t = ''ncols'' @ '' '' @ t" "''nrows '' @ t = ''nrows'' @ '' '' @ t"
    "''xllcorner '' @ t = ''xllcorner'' @ '' '' @ t"
    "''yllcorner '' @ t = ''yllcorner'' @ '' '' @ t"
    "''cellsize '' @ t = ''cellsize'' @ '' '' @ t"
    "''NODATA_value -9999'' = ''NODATA_value'' @ '' '' @ ''-9999''" for t :: string
    by simp_all
  note s1 = header_step [OF token_keys(1) token_show_nat parse_header_nat]
  note s2 = header_step [OF token_keys(2) token_show_nat parse_header_nat]
  note s3 = header_step [OF token_keys(3) token_format_fixed parse_header_fixed [OF six]]
  note s4 = header_step [OF token_keys(4) token_format_fixed parse_header_fixed [OF six]]
  note s5 = header_step [OF token_keys(5) token_format_fixed parse_header_fixed [OF six]]
  note s6 = header_step [OF token_keys(6) token_keys(7) parse_header_sentinel]
  show ?thesis
    by (simp only: e s1 s2 s3 s4 s5 s6 lower_keys read_header.simps(1))
qed

lemma read_asc_file_parts:
  assumes "length head = 6" and "read_header head Map.empty = Inr header"
    and "read_rows body = Inr data" and "rectangular data"
    and "header ''nodata_value'' = Some nodata"
  shows "read_asc_file (head @ body)
    = Inr (header, map (map (\<lambda>v. if v = nodata then NaN else Finite v)) data)"
  using assms by (simp add: read_asc_file_def)


lemma save_monthly_layer_lines:
  assumes "lons \<noteq> []" and "lats \<noteq> []"
  shows "save_monthly_layer data lons lats =
    Inr ([''ncols '' @ show_nat (length lons),
          ''nrows '' @ show_nat (length (fst (north_to_south lats data))),
          ''xllcorner '' @ format_fixed 6 (Min (set lons)),
          ''yllcorner '' @ format_fixed 6 (Min (set (fst (north_to_south lats data)))),
          ''cellsize '' @ format_fixed 6
             (if length lons > 1 then \<bar>lons ! 1 - lons ! 0\<bar> else 0.083),
          ''NODATA_value -9999'']
         @ map (\<lambda>row. join_with_space (map format_cell row))
             (map (map mask_missing) (snd (north_to_south lats data))))"
proof -
  from assms(2) have "fst (north_to_south lats data) \<noteq> []"
    by (simp add: north_to_south_lats)
  with assms(1) show ?thesis
    unfolding save_monthly_layer_def north_to_south_map Let_def by simp
qed


lemma rectangular_same_rows:
  assumes "rectangular data" and "set rows = set data"
  shows "rectangular rows"
  unfolding rectangular_iff
proof (intro ballI)
  fix r q assume "r \<in> set rows" "q \<in> set rows"
  with assms(2) have "r \<in> set data" "q \<in> set data" by simp_all
  with assms(1) [unfolded rectangular_iff] show "length r = length q" by blast
qed

lemma rectangular_map:
  assumes "rectangular data"
  shows "rectangular (map (map f) data)"
  unfolding rectangular_iff
proof (intro ballI)
  fix r q assume "r \<in> set (map (map f) data)" "q \<in> set (map (map f) data)"
  then obtain r' q' where "r' \<in> set data" "q' \<in> set data" and rq: "r = map f r'" "q = map f q'"
    by auto
  with assms [unfolded rectangular_iff] have "length r' = length q'" by blast
  with rq show "length r = length q" by simp
qed

lemma raster_round_trip:
  assumes lons: "lons \<noteq> []" and lats: "lats \<noteq> []"
    and rows: "\<forall>row \<in> set data. row \<noteq> []" and rect: "rectangular data"
  shows "\<exists>lines header.
      save_monthly_layer data lons lats = Inr lines
      \<and> read_asc_file lines = Inr (header, map (map read_back) (snd (north_to_south lats data)))
      \<and> header ''nodata_value'' = Some (- 9999)"
proof -
  define lats' where "lats' = fst (north_to_south lats data)"
  define data' where "data' = snd (north_to_south lats data)"
  define head where "head = [''ncols '' @ show_nat (length lons),
          ''nrows '' @ show_nat (length lats'),
          ''xllcorner '' @ format_fixed 6 (Min (set lons)),
          ''yllcorner '' @ format_fixed 6 (Min (set lats')),
          ''cellsize '' @ format_fixed 6
             (if length lons > 1 then \<bar>lons ! 1 - lons ! 0\<bar> else 0.083),
          ''NODATA_value -9999'']"
  define body where "body = map (\<lambda>row. join_with_space (map format_cell row))
             (map (map mask_missing) data')"
  define header where "header = [''ncols'' \<mapsto> real (length lons),
      ''nrows'' \<mapsto> real (length lats'),
      ''xllcorner'' \<mapsto> round_to 6 (Min (set lons)),
      ''yllcorner'' \<mapsto> round_to 6 (Min (set lats')),
      ''cellsize'' \<mapsto> round_to 6 (if length lons > 1 then \<bar>lons ! 1 - lons ! 0\<bar> else 0.083),
      ''nodata_value'' \<mapsto> - 9999]"
  have written: "save_monthly_layer data lons lats = Inr (head @ body)"
    unfolding head_def body_def lats'_def data'_def
    using lons lats by (rule save_monthly_layer_lines)
  have len: "length head = 6" unfolding head_def by simp
  have hd: "read_header head Map.empty = Inr header"
    unfolding head_def header_def by (rule read_header_written)
  have nd: "header ''nodata_value'' = Some (- 9999)"
    unfolding header_def by simp
  have cells: "set data' = set data"
    unfolding data'_def by (rule north_to_south_rows)
  from rows cells have "\<forall>row \<in> set (map (map mask_missing) data'). row \<noteq> []" by simp
  then have rd: "read_rows body = Inr (map (map written_value) (map (map mask_missing) data'))"
    unfolding body_def by (rule read_rows_written)
  from rect cells have "rectangular data'" by (rule rectangular_same_rows)
  then have "rectangular (map (map mask_missing) data')" by (rule rectangular_map)
  then have rc: "rectangular (map (map written_value) (map (map mask_missing) data'))"
    by (rule rectangular_map)
  have "map (map (\<lambda>v. if v = - 9999 then NaN else Finite v))
          (map (map written_value) (map (map mask_missing) data'))
      = map (map read_back) data'"
    by (simp add: comp_def read_back_cell)
  with read_asc_file_parts [OF len hd rd rc nd]
  have rt: "read_asc_file (head @ body) = Inr (header, map (map read_back) data')"
    by (simp only:)
  show ?thesis
    using written rt [unfolded data'_def] nd by (intro exI [of _ "head @ body"] exI [of _ header]) simp
qed

lemma round_to_close: "\<bar>round_to k x - x\<bar> \<le> 1 / (2 * 10 ^ k)"
proof -
  define y where "y = \<bar>x\<bar> * 10 ^ k"
  define r where "r = real_of_int (round_half_even y)"
  have c: "\<bar>r - y\<bar> \<le> 1 / 2" unfolding r_def by (rule round_half_even_close)
  have p: "(0 :: real) < 10 ^ k" by simp
  have "\<bar>(if x < 0 then - 1 else 1) * r / 10 ^ k - x\<bar> = \<bar>r - y\<bar> / 10 ^ k"
  proof (cases "x < 0")
    case True
    then have "y = - x * 10 ^ k" by (simp add: y_def)
    then have "- 1 * r / 10 ^ k - x = - (r - y) / 10 ^ k" using p by (simp add: field_simps)
    with True show ?thesis by (simp add: abs_minus_commute)
  next
    case False
    then have "y = x * 10 ^ k" by (simp add: y_def)
    then have "1 * r / 10 ^ k - x = (r - y) / 10 ^ k" using p by (simp add: field_simps)
    with False show ?thesis by simp
  qed
  also have "\<dots> \<le> (1 / 2) / 10 ^ k"
    using c by (rule divide_right_mono) simp
  also have "\<dots> = 1 / (2 * 10 ^ k)" by simp
  finally show ?thesis by (simp only: round_to_def r_def y_def)
qed

lemma valid_cells_read_back:
  "- 9999 \<notin> set (valid_cells (map (map read_back) grid))"
proof -
  have "- 9999 \<notin> set (List.map_filter (\<lambda>v. case v of Finite x \<Rightarrow> Some x | other \<Rightarrow> None)
                        (map read_back row))" for row
    by (induction row)
      (auto simp add: List.map_filter_simps read_back_def split: float_value.splits)
  then show ?thesis by (simp add: valid_cells_def)
qed

lemma round_to_whole: "round_to 4 1 = 1"
  by (simp add: round_to_def round_half_even_def)


text \<open>
  C3 (as it is stated, refuted). The array with the rows \<open>[1]\<close> and \<open>[-9999]\<close>, both
  finite, written for the ascending latitudes -71 and -70, is read back as the rows
  \<open>[NaN]\<close> and \<open>[1]\<close>: the rows come back in the reversed order in which they were
  written, and the finite value -9999 comes back as \<open>NaN\<close>. Masking the cells that are not
  finite and rounding the others would give the rows \<open>[1]\<close> and \<open>[-9999]\<close>.
\<close>

theorem raster_round_trip_counterexample:
  "\<exists>lines header grid.
     save_monthly_layer [[Finite 1], [Finite (- 9999)]] [170] [- 71, - 70] = Inr lines
     \<and> read_asc_file lines = Inr (header, grid)
     \<and> grid = [[NaN], [Finite 1]]
     \<and> map (map masked_or_rounded) [[Finite 1], [Finite (- 9999)]]
         = [[Finite 1], [Finite (- 9999)]]
     \<and> grid \<noteq> map (map masked_or_rounded) [[Finite 1], [Finite (- 9999)]]"
proof -
  let ?data = "[[Finite 1], [Finite (- 9999)]]"
  have "(170 # []) \<noteq> ([] :: real list)" "[- 71, - 70] \<noteq> ([] :: real list)"
    "\<forall>row \<in> set ?data. row \<noteq> []" "rectangular ?data"
    by (simp_all add: rectangular_def)
  from raster_round_trip [OF this]
  obtain lines header where w: "save_monthly_layer ?data [170] [- 71, - 70] = Inr lines"
    and r: "read_asc_file lines
        = Inr (header, map (map read_back) (snd (north_to_south [- 71, - 70] ?data)))"
    by blast
  have g: "map (map read_back) (snd (north_to_south [- 71, - 70] ?data)) = [[NaN], [Finite 1]]"
    by (simp add: north_to_south_def read_back_def round_to_sentinel round_to_whole)
  have m: "map (map masked_or_rounded) ?data = ?data"
    by (simp add: masked_or_rounded_def round_to_sentinel round_to_whole)
  from w r g m show ?thesis by auto
qed

text \<open>
  C3 (amended). For an array with rows that are not empty and coordinate vectors that
  are not empty, writing succeeds and reading the file succeeds, and gives the rows in the
  order in which they were written, which is the reverse of the array's when the
  latitudes are ascending. A cell that is \<open>NaN\<close> or infinite comes back as \<open>NaN\<close>. A
  finite cell comes back as its value rounded to 4 decimals, which differs from it by
  0.00005 at most, unless that rounded value is -9999, the sentinel, when it comes back as
  \<open>NaN\<close> too. The header read has the sentinel as \<open>nodata_value\<close>, and as the reader
  replaces the sentinel when it reads, no cell that the statistics are taken over is -9999.
\<close>

theorem raster_round_trip_written_order:
  assumes "lons \<noteq> []" and "lats \<noteq> []"
    and "\<forall>row \<in> set data. row \<noteq> []" and "rectangular data"
  shows "(\<exists>lines header grid.
      save_monthly_layer data lons lats = Inr lines
      \<and> read_asc_file lines = Inr (header, grid)
      \<and> grid = map (map (\<lambda>v. case v of
                              Finite x \<Rightarrow> if round_to 4 x = - 9999 then NaN
                                          else Finite (round_to 4 x)
                            | other \<Rightarrow> NaN))
                 (if length lats > 1 \<and> hd lats < last lats then rev data else data)
      \<and> header ''nodata_value'' = Some (- 9999)
      \<and> - 9999 \<notin> set (valid_cells grid))
    \<and> \<bar>round_to 4 x - x\<bar> \<le> 0.00005"
proof -
  from raster_round_trip [OF assms]
  obtain lines header where w: "save_monthly_layer data lons lats = Inr lines"
    and r: "read_asc_file lines
        = Inr (header, map (map read_back) (snd (north_to_south lats data)))"
    and n: "header ''nodata_value'' = Some (- 9999)"
    by blast
  have rb: "read_back = (\<lambda>v. case v of
                              Finite x \<Rightarrow> if round_to 4 x = - 9999 then NaN
                                          else Finite (round_to 4 x)
                            | other \<Rightarrow> NaN)"
    by (rule ext) (simp add: read_back_def)
  have o: "snd (north_to_south lats data)
      = (if length lats > 1 \<and> hd lats < last lats then rev data else data)"
    by (simp add: north_to_south_def)
  have v: "- 9999 \<notin> set (valid_cells (map (map read_back) (snd (north_to_south lats data))))"
    by (rule valid_cells_read_back)
  have c: "\<bar>round_to 4 x - x\<bar> \<le> 0.00005"
    using round_to_close [of 4 x] by simp
  from w r n v c show ?thesis unfolding rb o by blast
qed

theorem raster_round_trip_written_order_witness:
  "\<exists>lines header.
      save_monthly_layer [[Finite 1, NaN], [PosInf, Finite 1]] [170, 171] [- 70, - 71] = Inr lines
      \<and> read_asc_file lines = Inr (header, [[Finite 1, NaN], [NaN, Finite 1]])
      \<and> header ''nodata_value'' = Some (- 9999)"
proof -
  let ?data = "[[Finite 1, NaN], [PosInf, Finite 1]]"
  have h: "[170, 171] \<noteq> ([] :: real list)" "[- 70, - 71] \<noteq> ([] :: real list)"
    "\<forall>row \<in> set ?data. row \<noteq> []" "rectangular ?data"
    by (simp_all add: rectangular_def)
  from raster_round_trip_written_order [OF h, of 1]
  obtain lines header grid where
    a: "save_monthly_layer ?data [170, 171] [- 70, - 71] = Inr lines"
    and b: "read_asc_file lines = Inr (header, grid)"
    and c: "grid = map (map (\<lambda>v. case v of
                              Finite x \<Rightarrow> if round_to 4 x = - 9999 then NaN
                                          else Finite (round_to 4 x)
                            | other \<Rightarrow> NaN))
                 (if length [- 70, - 71 :: real] > 1 \<and> hd [- 70, - 71 :: real] < last [- 70, - 71]
                  then rev ?data else ?data)"
    and d: "header ''nodata_value'' = Some (- 9999)"
    by blast
  from c have "grid = [[Finite 1, NaN], [NaN, Finite 1]]"
    by (simp add: round_to_whole)
  with b have "read_asc_file lines = Inr (header, [[Finite 1, NaN], [NaN, Finite 1]])"
    by simp
  with a d show ?thesis by (intro exI conjI)
qed


section \<open>Properties of the region sort key\<close>


























end
